theory Spec2Isabelle
  imports Main "HOL-Library.Sublist"
begin

section \<open>Data model\<close>

text \<open>
  Strings are lists of code units; a \<^typ>\<open>char\<close> stands for a code unit below 256.
  An attribute mapping is the list of the object's entries in the order in which
  \<^verbatim>\<open>Object.entries\<close> enumerates them.
\<close>

type_synonym attribs = "(string \<times> string) list"

text \<open>
  A node of the tree is either a bare string (a text node) or an object with a
  \<^verbatim>\<open>name\<close>, and with \<^verbatim>\<open>attribs\<close> and \<^verbatim>\<open>children\<close> that the code allows to be absent
  (\<^verbatim>\<open>node.children?.\<close>, \<^verbatim>\<open>attribs = {}\<close>, \<^verbatim>\<open>children = []\<close>); \<open>None\<close> is the absent field.
\<close>

datatype node =
    Text string
  | Element string "attribs option" "node list option"

text \<open>
  The argument of the polymorphic walkers (\<^verbatim>\<open>traverse\<close>, \<^verbatim>\<open>hasNode\<close>, \<^verbatim>\<open>removeNodes\<close>,
  \<^verbatim>\<open>updateTitle\<close>): \<^verbatim>\<open>null\<close>/\<^verbatim>\<open>undefined\<close>, an array of nodes, or a single node.
\<close>

datatype arg = Null | Many "node list" | One node

text \<open>Property reads on a node: a string has none of the three properties.\<close>

fun node_name :: "node \<Rightarrow> string option" where
  "node_name (Text s) = None"
| "node_name (Element name attribs children) = Some name"

fun node_attribs :: "node \<Rightarrow> attribs option" where
  "node_attribs (Text s) = None"
| "node_attribs (Element name attribs children) = attribs"

fun node_children :: "node \<Rightarrow> node list option" where
  "node_children (Text s) = None"
| "node_children (Element name attribs children) = children"

text \<open>\<^verbatim>\<open>!node\<close> on a node: the empty string is the only falsy node.\<close>

fun falsy :: "node \<Rightarrow> bool" where
  "falsy (Text s) = (s = [])"
| "falsy (Element name attribs children) = False"

text \<open>\<^verbatim>\<open>attribs?.[key]\<close>: the value of a key, \<open>None\<close> for \<^verbatim>\<open>undefined\<close>.\<close>

definition get_prop :: "attribs option \<Rightarrow> string \<Rightarrow> string option" where
  "get_prop attribs key = (case attribs of None \<Rightarrow> None | Some a \<Rightarrow> map_of a key)"

text \<open>The canonical tree of the specification: both fields of every element present.\<close>

fun canonical :: "node \<Rightarrow> bool" where
  "canonical (Text s) = True"
| "canonical (Element name attribs None) = False"
| "canonical (Element name attribs (Some children)) =
     (attribs \<noteq> None \<and> list_all canonical children)"

section \<open>String primitives\<close>

text \<open>\<^verbatim>\<open>Array.prototype.join\<close> on strings.\<close>

fun join :: "string \<Rightarrow> string list \<Rightarrow> string" where
  "join sep [] = []"
| "join sep [x] = x"
| "join sep (x # y # ys) = x @ sep @ join sep (y # ys)"

text \<open>
  \<^verbatim>\<open>String.prototype.trim\<close>: white space and line terminators among the code units below
  256 are TAB, LF, VT, FF, CR, space and the no-break space.
\<close>

definition is_space :: "char \<Rightarrow> bool" where
  "is_space c = (of_char c \<in> set [0x09, 0x0A, 0x0B, 0x0C, 0x0D, 0x20, 0xA0 :: nat])"

definition trim :: "string \<Rightarrow> string" where
  "trim s = rev (dropWhile is_space (rev (dropWhile is_space s)))"

text \<open>
  \<^verbatim>\<open>String.prototype.toLowerCase\<close> on code units below 256: the letters A to Z and the
  Latin-1 capitals move by 32, everything else stays.
\<close>

definition lower_char :: "char \<Rightarrow> char" where
  "lower_char c =
     (let n = of_char c :: nat in
      if (0x41 \<le> n \<and> n \<le> 0x5A) \<or> (0xC0 \<le> n \<and> n \<le> 0xDE \<and> n \<noteq> 0xD7)
      then char_of (n + 32) else c)"

definition toLowerCase :: "string \<Rightarrow> string" where
  "toLowerCase s = map lower_char s"

text \<open>\<^verbatim>\<open>String.prototype.includes\<close>.\<close>

fun startsWith :: "string \<Rightarrow> string \<Rightarrow> bool" where
  "startsWith s [] = True"
| "startsWith [] (c # cs) = False"
| "startsWith (x # xs) (c # cs) = (x = c \<and> startsWith xs cs)"

fun includes_str :: "string \<Rightarrow> string \<Rightarrow> bool" where
  "includes_str [] sub = startsWith [] sub"
| "includes_str (x # xs) sub = (startsWith (x # xs) sub \<or> includes_str xs sub)"

section \<open>Constants\<close>

definition RESOURCE_ATTRS :: "string list" where
  "RESOURCE_ATTRS = [''src'', ''href'', ''data'', ''action'']"

definition SELF_CLOSING_TAGS :: "string list" where
  "SELF_CLOSING_TAGS =
     [''meta'', ''base'', ''link'', ''img'', ''br'', ''hr'', ''input'', ''area'', ''source'']"

section \<open>The codec\<close>

subsection \<open>jsonToHtml\<close>

definition attr_pair :: "string \<times> string \<Rightarrow> string" where
  "attr_pair kv = fst kv @ ''=\"'' @ snd kv @ ''\"''"

fun jsonToHtml :: "node \<Rightarrow> string" where
  "jsonToHtml (Text s) = s"
| "jsonToHtml (Element name attribs_opt children_opt) =
     (let attribs = (case attribs_opt of None \<Rightarrow> [] | Some a \<Rightarrow> a);
          children = (case children_opt of None \<Rightarrow> [] | Some c \<Rightarrow> c);
          attrStr = join '' '' (map attr_pair attribs);
          openTag = (if attrStr \<noteq> [] then ''<'' @ name @ '' '' @ attrStr @ ''>''
                     else ''<'' @ name @ ''>'')
      in if name \<in> set SELF_CLOSING_TAGS \<and> children = []
         then (if attrStr \<noteq> [] then ''<'' @ name @ '' '' @ attrStr @ '' />''
               else ''<'' @ name @ '' />'')
         else (let childrenHtml = join [] (map jsonToHtml children)
               in openTag @ childrenHtml @ ''</'' @ name @ ''>''))"

subsection \<open>htmlToJson\<close>

text \<open>
  Modelled from the spec: the raw parse node of the external parse adapter
  (\<^verbatim>\<open>htmlparser2\<close>, not part of the repository). The specification gives it a type tag,
  \<^verbatim>\<open>data\<close> when the tag is \<^verbatim>\<open>text\<close>, and a \<^verbatim>\<open>name\<close>, \<^verbatim>\<open>attribs\<close> and \<^verbatim>\<open>children\<close>
  when the tag is one of \<^verbatim>\<open>tag\<close>, \<^verbatim>\<open>script\<close>, \<^verbatim>\<open>style\<close>. The tagged union is a datatype,
  the tag being the constructor: \<open>RawText\<close> is the type \<^verbatim>\<open>text\<close>, \<open>RawElement\<close> the three
  element-like types, \<open>RawOther\<close> every other type (comment, doctype, CDATA), of which
  the codec reads the type and the absent \<^verbatim>\<open>name\<close> only. So the test
  \<^verbatim>\<open>node.type === 'text'\<close> of \<^verbatim>\<open>nodeToJson\<close> is its first equation and the test
  \<^verbatim>\<open>!['tag', 'script', 'style'].includes(node.type)\<close> its second. (A directive of the
  adapter has a name, which starts with \<^verbatim>\<open>!\<close> or \<^verbatim>\<open>?\<close> and is never \<^verbatim>\<open>html\<close>; here it
  has none.)
\<close>

datatype element_type = Tag | Script | Style

datatype raw_node =
    RawText string
  | RawElement element_type string "attribs option" "raw_node list option"
  | RawOther

fun raw_name :: "raw_node \<Rightarrow> string option" where
  "raw_name (RawElement type name attribs children) = Some name"
| "raw_name (RawText d) = None"
| "raw_name RawOther = None"

text \<open>\<^verbatim>\<open>Boolean\<close> on a result of \<^verbatim>\<open>nodeToJson\<close>: \<^verbatim>\<open>null\<close> and the empty string are falsy.\<close>

fun truthy :: "node option \<Rightarrow> bool" where
  "truthy None = False"
| "truthy (Some n) = (\<not> falsy n)"

fun nodeToJson :: "raw_node \<Rightarrow> node option" where
  "nodeToJson (RawText d) = (if trim d \<noteq> [] then Some (Text d) else None)"
| "nodeToJson RawOther = None"
| "nodeToJson (RawElement type name attribs children) =
     Some (Element name
       (Some (case attribs of None \<Rightarrow> [] | Some a \<Rightarrow> a))
       (Some (map the (filter truthy
          (map nodeToJson (case children of None \<Rightarrow> [] | Some c \<Rightarrow> c))))))"

text \<open>
  \<^verbatim>\<open>parseDocument\<close> is a parameter: it gives the children of the document that the
  adapter builds from the text.
\<close>

definition htmlToJson :: "(string \<Rightarrow> raw_node list) \<Rightarrow> string \<Rightarrow> node option" where
  "htmlToJson parseDocument html =
     (case find (\<lambda>n. raw_name n = Some ''html'') (parseDocument html) of
        None \<Rightarrow> None
      | Some htmlNode \<Rightarrow> nodeToJson htmlNode)"

section \<open>Traversal and search\<close>

record nodeview =
  v_name :: "string option"
  v_attribs :: "attribs option"
  v_content :: "string option"

fun getNodeProps :: "node \<Rightarrow> nodeview" where
  "getNodeProps (Text s) = \<lparr>v_name = None, v_attribs = None, v_content = Some s\<rparr>"
| "getNodeProps (Element name attribs children) =
     \<lparr>v_name = Some name, v_attribs = attribs,
      v_content = (case children of Some [Text s] \<Rightarrow> Some s | _ \<Rightarrow> None)\<rparr>"

text \<open>
  The callback of \<^verbatim>\<open>traverse\<close> acts on the caller's state \<open>'s\<close>; it does not change the
  tree that is being walked.
\<close>

fun traverse_node :: "(node \<Rightarrow> 's \<Rightarrow> 's) \<Rightarrow> node \<Rightarrow> 's \<Rightarrow> 's" where
  "traverse_node callback (Text s) st =
     (if falsy (Text s) then st else callback (Text s) st)"
| "traverse_node callback (Element name attribs children) st =
     (let st' = callback (Element name attribs children) st
      in case children of
           None \<Rightarrow> st'
         | Some cs \<Rightarrow> fold (traverse_node callback) cs st')"

fun traverse :: "(node \<Rightarrow> 's \<Rightarrow> 's) \<Rightarrow> arg \<Rightarrow> 's \<Rightarrow> 's" where
  "traverse callback Null st = st"
| "traverse callback (Many ns) st = fold (traverse_node callback) ns st"
| "traverse callback (One n) st = traverse_node callback n st"

fun hasNode_node :: "(nodeview \<Rightarrow> bool) \<Rightarrow> node \<Rightarrow> bool" where
  "hasNode_node predicate (Text s) =
     (if falsy (Text s) then False else predicate (getNodeProps (Text s)))"
| "hasNode_node predicate (Element name attribs children) =
     (if predicate (getNodeProps (Element name attribs children)) then True
      else case children of
             None \<Rightarrow> False
           | Some cs \<Rightarrow> list_ex (hasNode_node predicate) cs)"

fun hasNode :: "(nodeview \<Rightarrow> bool) \<Rightarrow> arg \<Rightarrow> bool" where
  "hasNode predicate Null = False"
| "hasNode predicate (Many ns) = list_ex (hasNode_node predicate) ns"
| "hasNode predicate (One n) = hasNode_node predicate n"

record resource =
  r_name :: string
  r_attribute :: string
  r_value :: string

fun collect :: "node \<Rightarrow> resource list \<Rightarrow> resource list" where
  "collect (Text s) resources = resources"
| "collect (Element name None children) resources = resources"
| "collect (Element name (Some attribs) children) resources =
     fold (\<lambda>attr rs.
             case map_of attribs attr of
               None \<Rightarrow> rs
             | Some v \<Rightarrow>
                 if v \<noteq> [] then rs @ [\<lparr>r_name = name, r_attribute = attr, r_value = v\<rparr>]
                 else rs)
          RESOURCE_ATTRS resources"

definition extractAllResources :: "arg \<Rightarrow> resource list" where
  "extractAllResources root = traverse collect root []"

section \<open>Mutation operations\<close>

text \<open>
  The operations change the tree in place; here each takes the tree and returns the
  tree after the call. A tree has no sharing: no node object occurs at two places.
\<close>

datatype error = TypeError

fun removeNodes_node :: "(nodeview \<Rightarrow> bool) \<Rightarrow> node \<Rightarrow> node" where
  "removeNodes_node predicate (Text s) = Text s"
| "removeNodes_node predicate (Element name attribs None) = Element name attribs None"
| "removeNodes_node predicate (Element name attribs (Some cs)) =
     Element name attribs
       (Some (map (removeNodes_node predicate)
          (filter (\<lambda>child. let shouldRemove = predicate (getNodeProps child)
                           in \<not> shouldRemove) cs)))"

fun removeNodes :: "(nodeview \<Rightarrow> bool) \<Rightarrow> arg \<Rightarrow> arg" where
  "removeNodes predicate Null = Null"
| "removeNodes predicate (Many ns) = Many (map (removeNodes_node predicate) ns)"
| "removeNodes predicate (One n) = One (removeNodes_node predicate n)"

fun updateTitle_node :: "string \<Rightarrow> node \<Rightarrow> node" where
  "updateTitle_node newTitle (Text s) = Text s"
| "updateTitle_node newTitle (Element name attribs children) =
     (if name = ''title'' then Element name attribs (Some [Text newTitle])
      else case children of
             None \<Rightarrow> Element name attribs None
           | Some cs \<Rightarrow> Element name attribs (Some (map (updateTitle_node newTitle) cs)))"

fun updateTitle :: "string \<Rightarrow> arg \<Rightarrow> arg" where
  "updateTitle newTitle Null = Null"
| "updateTitle newTitle (Many ns) = Many (map (updateTitle_node newTitle) ns)"
| "updateTitle newTitle (One n) = One (updateTitle_node newTitle n)"

text \<open>\<^verbatim>\<open>Array.prototype.findIndex\<close>, with \<open>None\<close> for \<open>-1\<close>.\<close>

fun findIndex :: "('a \<Rightarrow> bool) \<Rightarrow> 'a list \<Rightarrow> nat option" where
  "findIndex P [] = None"
| "findIndex P (x # xs) = (if P x then Some 0 else map_option Suc (findIndex P xs))"

text \<open>
  \<^verbatim>\<open>ensureHeadNode\<close> returns a reference to the head object. The model returns the
  root after the call and the place of the head: \<open>Some i\<close> when the head is
  \<^verbatim>\<open>root.children[i]\<close>, \<open>None\<close> when the root has no \<^verbatim>\<open>children\<close> array, so that the
  fresh head object is in no tree (\<^verbatim>\<open>root.children?.splice\<close> does nothing).
\<close>

definition headNode :: node where
  "headNode = Element ''head'' (Some []) (Some [])"

fun ensureHeadNode :: "node \<Rightarrow> node \<times> nat option" where
  "ensureHeadNode (Text s) = (Text s, None)"
| "ensureHeadNode (Element name attribs None) = (Element name attribs None, None)"
| "ensureHeadNode (Element name attribs (Some cs)) =
     (case findIndex (\<lambda>n. node_name n = Some ''head'') cs of
        Some i \<Rightarrow> (Element name attribs (Some cs), Some i)
      | None \<Rightarrow>
          (let bodyIndex = findIndex (\<lambda>n. node_name n = Some ''body'') cs;
               insertIndex = (case bodyIndex of Some b \<Rightarrow> b | None \<Rightarrow> 0)
           in (Element name attribs (Some (take insertIndex cs @ headNode # drop insertIndex cs)),
               Some insertIndex)))"

text \<open>
  \<^verbatim>\<open>headNode.children.push(x)\<close> and \<^verbatim>\<open>headNode.children.unshift(x)\<close> on the reference that
  \<^verbatim>\<open>ensureHeadNode\<close> returned: \<open>f\<close> is the change of the children array. A head found
  in the tree whose \<^verbatim>\<open>children\<close> is absent makes the method call a \<^verbatim>\<open>TypeError\<close>; a
  change of the head that is in no tree leaves the root as it is.
\<close>

fun changeHeadChildren :: "(node list \<Rightarrow> node list) \<Rightarrow> node \<times> nat option \<Rightarrow> error + node" where
  "changeHeadChildren f (root, None) = Inr root"
| "changeHeadChildren f (Element name attribs (Some cs), Some i) =
     (if i < length cs then
        (case cs ! i of
           Element hname hattribs (Some hcs) \<Rightarrow>
             Inr (Element name attribs (Some (cs[i := Element hname hattribs (Some (f hcs))])))
         | _ \<Rightarrow> Inl TypeError)
      else Inl TypeError)"
| "changeHeadChildren f (root, Some i) = Inl TypeError"

definition insertInlineScript :: "node \<Rightarrow> string \<Rightarrow> error + node" where
  "insertInlineScript root scriptText =
     (let scriptNode = Element ''script'' (Some []) (Some [Text scriptText])
      in changeHeadChildren (\<lambda>cs. cs @ [scriptNode]) (ensureHeadNode root))"

text \<open>
  The order of the own keys of an object: the array indices first (the canonical
  decimal strings of the integers from 0 to \<open>2\<^sup>3\<^sup>2 - 2\<close>), in ascending numeric order, then the
  other keys in the order of their creation.
\<close>

definition index_value :: "string \<Rightarrow> nat" where
  "index_value key = foldl (\<lambda>n c. 10 * n + (of_char c - 48)) 0 key"

definition is_index :: "string \<Rightarrow> bool" where
  "is_index key =
     (key \<noteq> [] \<and> list_all (\<lambda>c. c \<in> set ''0123456789'') key
      \<and> (hd key \<noteq> CHR ''0'' \<or> key = ''0'') \<and> index_value key \<le> 4294967294)"

text \<open>
  One key of an object literal or of a spread: a key that is already there keeps its
  place and takes the new value; a new array index goes to its numeric place among the
  array indices at the front; any other new key goes to the end.
\<close>

fun assign :: "string \<Rightarrow> string \<Rightarrow> attribs \<Rightarrow> attribs" where
  "assign k v [] = [(k, v)]"
| "assign k v (p # ps) =
     (if fst p = k then (k, v) # ps
      else if is_index k \<and> (\<not> is_index (fst p) \<or> index_value k < index_value (fst p))
           then (k, v) # p # ps
      else p # assign k v ps)"

definition insertLink :: "node \<Rightarrow> string \<Rightarrow> string option \<Rightarrow> attribs option \<Rightarrow> error + node" where
  "insertLink root href rel_opt additionalAttribs_opt =
     (let rel = (case rel_opt of None \<Rightarrow> ''stylesheet'' | Some r \<Rightarrow> r);
          additionalAttribs = (case additionalAttribs_opt of None \<Rightarrow> [] | Some a \<Rightarrow> a);
          linkNode = Element ''link''
            (Some (fold (\<lambda>kv. assign (fst kv) (snd kv)) additionalAttribs
                     [(''rel'', rel), (''href'', href)]))
            (Some [])
      in changeHeadChildren (\<lambda>cs. cs @ [linkNode]) (ensureHeadNode root))"

definition setTitle :: "node \<Rightarrow> string \<Rightarrow> error + node" where
  "setTitle root content =
     (if hasNode_node (\<lambda>d. v_name d = Some ''title'') root
      then Inr (updateTitle_node content root)
      else (let titleNode = Element ''title'' (Some []) (Some [Text content])
            in changeHeadChildren (\<lambda>cs. titleNode # cs) (ensureHeadNode root)))"

text \<open>A string read as a condition: \<^verbatim>\<open>undefined\<close> and the empty string are falsy.\<close>

fun truthy_str :: "string option \<Rightarrow> bool" where
  "truthy_str None = False"
| "truthy_str (Some v) = (v \<noteq> [])"

definition signalsCharset :: "nodeview \<Rightarrow> bool" where
  "signalsCharset node =
     (if v_name node \<noteq> Some ''meta'' then False
      else (let attribs = v_attribs node in
            truthy_str (get_prop attribs ''charset'')
            \<or> (map_option toLowerCase (get_prop attribs ''http-equiv'') = Some ''content-type''
                \<and> (case get_prop attribs ''content'' of
                       None \<Rightarrow> False
                     | Some c \<Rightarrow> includes_str (toLowerCase c) ''charset''))
            \<or> map_option toLowerCase (get_prop attribs ''name'') = Some ''charset''))"

definition setCharset :: "node \<Rightarrow> string option \<Rightarrow> error + node" where
  "setCharset root charset_opt =
     (let charset = (case charset_opt of None \<Rightarrow> ''utf-8'' | Some c \<Rightarrow> c);
          hasCharset = hasNode_node signalsCharset root
      in if hasCharset then Inr root
         else (let charsetNode = Element ''meta'' (Some [(''charset'', charset)]) (Some [])
               in changeHeadChildren (\<lambda>cs. charsetNode # cs) (ensureHeadNode root)))"

definition isViewport :: "nodeview \<Rightarrow> bool" where
  "isViewport node =
     (v_name node = Some ''meta'' \<and> get_prop (v_attribs node) ''name'' = Some ''viewport'')"

definition setViewport :: "node \<Rightarrow> string option \<Rightarrow> error + node" where
  "setViewport root content_opt =
     (let content = (case content_opt of
                       None \<Rightarrow> ''width=device-width, initial-scale=1.0'' | Some c \<Rightarrow> c);
          hasViewport = hasNode_node isViewport root
      in if hasViewport then Inr root
         else (let viewportNode = Element ''meta''
                     (Some [(''name'', ''viewport''), (''content'', content)]) (Some [])
               in changeHeadChildren (\<lambda>cs. cs @ [viewportNode]) (ensureHeadNode root)))"

section \<open>The document skeleton\<close>

record options =
  opt_lang :: "string option"
  opt_charset :: "string option"
  opt_viewport :: "string option"

definition createHtmlDocument :: "string option \<Rightarrow> options \<Rightarrow> node" where
  "createHtmlDocument title_opt opts =
     (let title = (case title_opt of None \<Rightarrow> [] | Some t \<Rightarrow> t);
          lang = opt_lang opts;
          charset = (case opt_charset opts of None \<Rightarrow> ''utf-8'' | Some c \<Rightarrow> c);
          viewport = (case opt_viewport opts of
                        None \<Rightarrow> ''width=device-width, initial-scale=1.0'' | Some v \<Rightarrow> v)
      in Element ''html''
           (Some (case lang of
                    None \<Rightarrow> []
                  | Some l \<Rightarrow> if l \<noteq> [] then [(''lang'', l)] else []))
           (Some
             [Element ''head'' (Some [])
                (Some
                  [Element ''meta'' (Some [(''charset'', charset)]) (Some []),
                   Element ''meta'' (Some [(''name'', ''viewport''), (''content'', viewport)])
                     (Some []),
                   Element ''title'' (Some []) (Some [Text title])]),
              Element ''body'' (Some []) (Some [])]))"

section \<open>The nodes of a tree, after the specification\<close>

text \<open>
  The specification's order of a walk: depth first, a parent before its children, the
  children from left to right; every node of the tree occurs once, the text nodes
  included, and an element with an absent \<^verbatim>\<open>children\<close> field has no children.
\<close>

fun preorder :: "node \<Rightarrow> node list" where
  "preorder (Text s) = [Text s]"
| "preorder (Element name attribs children) =
     Element name attribs children #
     concat (map preorder (case children of None \<Rightarrow> [] | Some cs \<Rightarrow> cs))"

fun preorder_arg :: "arg \<Rightarrow> node list" where
  "preorder_arg Null = []"
| "preorder_arg (Many ns) = concat (map preorder ns)"
| "preorder_arg (One n) = preorder n"

definition default_options :: options where
  "default_options = \<lparr>opt_lang = None, opt_charset = None, opt_viewport = None\<rparr>"

text \<open>
  The descendants of a node that a pruning keeps, in pre-order, as nodes of the tree
  before the call: the children whose view does not satisfy the predicate, each
  followed by what is kept below it. Nothing below a removed child is listed.
\<close>

fun survivors :: "(nodeview \<Rightarrow> bool) \<Rightarrow> node \<Rightarrow> node list" where
  "survivors p (Text s) = []"
| "survivors p (Element name attribs children) =
     concat (map (\<lambda>c. c # survivors p c)
       (filter (\<lambda>c. \<not> p (getNodeProps c)) (case children of None \<Rightarrow> [] | Some cs \<Rightarrow> cs)))"

text \<open>
  The records of one node, after the specification: none for a text node; for an
  element, one record for each of the keys src, href, data, action, in this order, that
  its attribs hold with a non-empty value.
\<close>

fun node_resources :: "node \<Rightarrow> resource list" where
  "node_resources (Text s) = []"
| "node_resources (Element name attribs children) =
     concat (map (\<lambda>key. case get_prop attribs key of
                           None \<Rightarrow> []
                         | Some v \<Rightarrow> if v \<noteq> [] then
                                      [\<lparr>r_name = name, r_attribute = key, r_value = v\<rparr>]
                                     else [])
       [''src'', ''href'', ''data'', ''action''])"

text \<open>
  A tree with the children of every \<^verbatim>\<open>title\<close> element taken away: two trees with the same
  image differ at most in what is below their \<^verbatim>\<open>title\<close> elements.
\<close>

fun outside_titles :: "node \<Rightarrow> node" where
  "outside_titles (Text s) = Text s"
| "outside_titles (Element name attribs children) =
     (if name = ''title'' then Element name attribs (Some [])
      else case children of
             None \<Rightarrow> Element name attribs None
           | Some cs \<Rightarrow> Element name attribs (Some (map outside_titles cs)))"

abbreviation named :: "string \<Rightarrow> node \<Rightarrow> bool" where
  "named x n \<equiv> node_name n = Some x"

text \<open>
  The meta elements that signal a character set: a \<^verbatim>\<open>charset\<close> attribute with a non-empty
  value, or \<^verbatim>\<open>http-equiv\<close> equal to \<^verbatim>\<open>content-type\<close> up to case together with a
  \<^verbatim>\<open>content\<close> that contains \<^verbatim>\<open>charset\<close> up to case, or a \<^verbatim>\<open>name\<close> attribute equal to
  \<^verbatim>\<open>charset\<close> up to case. The viewport meta elements: a \<^verbatim>\<open>name\<close> attribute that is
  exactly \<^verbatim>\<open>viewport\<close>. \<open>metas\<close> counts the elements named \<^verbatim>\<open>meta\<close> in a tree.
\<close>

fun charset_meta :: "node \<Rightarrow> bool" where
  "charset_meta (Text s) = False"
| "charset_meta (Element name attribs children) =
     (name = ''meta'' \<and>
      ((case get_prop attribs ''charset'' of None \<Rightarrow> False | Some v \<Rightarrow> v \<noteq> [])
       \<or> ((case get_prop attribs ''http-equiv'' of
              None \<Rightarrow> False | Some h \<Rightarrow> toLowerCase h = ''content-type'')
           \<and> (case get_prop attribs ''content'' of
                None \<Rightarrow> False | Some c \<Rightarrow> includes_str (toLowerCase c) ''charset''))
       \<or> (case get_prop attribs ''name'' of
             None \<Rightarrow> False | Some v \<Rightarrow> toLowerCase v = ''charset'')))"

fun viewport_meta :: "node \<Rightarrow> bool" where
  "viewport_meta (Text s) = False"
| "viewport_meta (Element name attribs children) =
     (name = ''meta'' \<and> get_prop attribs ''name'' = Some ''viewport'')"

definition metas :: "node \<Rightarrow> nat" where
  "metas n = length (filter (named ''meta'') (preorder n))"

text \<open>
  The frame of the mutation operations. \<open>framed new n n'\<close> holds when \<open>n'\<close> is \<open>n\<close> up to
  changes of children arrays: a text node is the same string; an element has the name
  and the attribs of \<open>n\<close>, and its children array comes from the one of \<open>n\<close> by
  \<open>aligned\<close>. \<open>aligned new cs cs'\<close> reads the two arrays from left to right: a child of
  \<open>cs\<close> is either kept, at its place in the order, as a child of \<open>cs'\<close> that is itself
  \<open>framed\<close>, or it is removed; a child of \<open>cs'\<close> that is not a kept one is one of the
  nodes \<open>new\<close> that the operation builds, as it is. No child is matched twice and the
  order of the kept children is the order before the call. \<open>labels\<close> lists the names
  and attribs of the elements of a tree in pre-order.
\<close>

fun framed :: "node list \<Rightarrow> node \<Rightarrow> node \<Rightarrow> bool"
  and aligned :: "node list \<Rightarrow> node list \<Rightarrow> node list \<Rightarrow> bool" where
  "framed new (Text s) n' = (n' = Text s)"
| "framed new (Element name attribs children) (Text s) = False"
| "framed new (Element name attribs None) (Element name' attribs' None) =
     (name' = name \<and> attribs' = attribs)"
| "framed new (Element name attribs (Some cs)) (Element name' attribs' None) = False"
| "framed new (Element name attribs None) (Element name' attribs' (Some cs')) =
     (name' = name \<and> attribs' = attribs \<and> aligned new [] cs')"
| "framed new (Element name attribs (Some cs)) (Element name' attribs' (Some cs')) =
     (name' = name \<and> attribs' = attribs \<and> aligned new cs cs')"
| "aligned new [] [] = True"
| "aligned new (c # cs) [] = aligned new cs []"
| "aligned new [] (c' # cs') = (c' \<in> set new \<and> aligned new [] cs')"
| "aligned new (c # cs) (c' # cs') =
     ((framed new c c' \<and> aligned new cs cs')
      \<or> aligned new cs (c' # cs')
      \<or> (c' \<in> set new \<and> aligned new (c # cs) cs'))"


text \<open>
  A top-level element named \<^verbatim>\<open>html\<close>, and a canonical node that is not a text of white
  space only.
\<close>

fun html_element :: "raw_node \<Rightarrow> bool" where
  "html_element (RawElement type name attribs children) = (name = ''html'')"
| "html_element (RawText d) = False"
| "html_element RawOther = False"

fun visible_text :: "node \<Rightarrow> bool" where
  "visible_text (Text s) = list_ex (\<lambda>c. \<not> is_space c) s"
| "visible_text (Element name attribs children) = True"

text \<open>
  The round trip of the specification for a parse adapter: parsing the serialised tree
  gives a tree with the same name, the same attribs and as many top-level children.
\<close>

definition roundtrip_ok :: "(string \<Rightarrow> raw_node list) \<Rightarrow> node \<Rightarrow> bool" where
  "roundtrip_ok parseDocument T =
     (case htmlToJson parseDocument (jsonToHtml T) of
        None \<Rightarrow> False
      | Some T' \<Rightarrow>
          node_name T' = node_name T \<and> node_attribs T' = node_attribs T
          \<and> map_option length (node_children T') = map_option length (node_children T))"

text \<open>
  Modelled from the specification: the parse adapter is an external collaborator, of which
  the codec requires only the shape of the raw nodes. For the round trip of a skeleton the
  adapter has to read markup the way HTML is written: a skeleton whose \<^verbatim>\<open>lang\<close>, character set,
  viewport and title hold none of the markup characters \<^verbatim>\<open><\<close>, \<^verbatim>\<open>>\<close>, \<^verbatim>\<open>"\<close> and \<^verbatim>\<open>&\<close> is the text
  \<^verbatim>\<open>skeleton_text\<close>, and its reading is the raw tree \<^verbatim>\<open>skeleton_raw\<close>: one \<^verbatim>\<open>html\<close> element
  with the \<^verbatim>\<open>lang\<close> attribute when there is one, a \<^verbatim>\<open>head\<close> of two \<^verbatim>\<open>meta\<close> elements and a
  \<^verbatim>\<open>title\<close>, whose only child is the text of the title when it is not empty, and an empty
  \<^verbatim>\<open>body\<close>. Both are written out from the markup, not from \<^verbatim>\<open>jsonToHtml\<close>.
\<close>

definition plain :: "string \<Rightarrow> bool" where
  "plain s = list_all (\<lambda>c. c \<notin> set ''<>\"&'') s"

definition skeleton_text :: "string \<Rightarrow> string \<Rightarrow> string \<Rightarrow> string \<Rightarrow> string" where
  "skeleton_text lang charset viewport title =
     ''<html'' @ (if lang \<noteq> [] then '' lang=\"'' @ lang @ ''\"'' else [])
     @ ''><head><meta charset=\"'' @ charset
     @ ''\" /><meta name=\"viewport\" content=\"'' @ viewport
     @ ''\" /><title>'' @ title @ ''</title></head><body></body></html>''"

definition skeleton_raw :: "string \<Rightarrow> string \<Rightarrow> string \<Rightarrow> string \<Rightarrow> raw_node" where
  "skeleton_raw lang charset viewport title =
     RawElement Tag ''html'' (Some (if lang \<noteq> [] then [(''lang'', lang)] else []))
       (Some
         [RawElement Tag ''head'' (Some [])
            (Some
              [RawElement Tag ''meta'' (Some [(''charset'', charset)]) (Some []),
               RawElement Tag ''meta'' (Some [(''name'', ''viewport''), (''content'', viewport)])
                 (Some []),
               RawElement Tag ''title'' (Some [])
                 (Some (if title \<noteq> [] then [RawText title] else []))]),
          RawElement Tag ''body'' (Some []) (Some [])])"

definition reads_skeleton :: "(string \<Rightarrow> raw_node list) \<Rightarrow> bool" where
  "reads_skeleton parseDocument =
     (\<forall>lang charset viewport title.
        plain lang \<and> plain charset \<and> plain viewport \<and> plain title \<longrightarrow>
        parseDocument (skeleton_text lang charset viewport title)
        = [skeleton_raw lang charset viewport title])"

text \<open>
  An adapter that reads a skeleton: it takes the text apart at the fixed markup and reads
  the four values between, and gives no node for any other text.
\<close>

fun strip_prefix :: "string \<Rightarrow> string \<Rightarrow> string option" where
  "strip_prefix [] s = Some s"
| "strip_prefix (p # ps) [] = None"
| "strip_prefix (p # ps) (c # cs) = (if p = c then strip_prefix ps cs else None)"

definition skeleton_reader :: "string \<Rightarrow> raw_node list" where
  "skeleton_reader html =
     (case strip_prefix ''<html'' html of
        None \<Rightarrow> []
      | Some r0 \<Rightarrow>
          (let (lang, r1) =
                 (case strip_prefix '' lang=\"'' r0 of
                    None \<Rightarrow> ([], r0)
                  | Some r \<Rightarrow> (takeWhile (\<lambda>c. c \<noteq> CHR 0x22) r,
                               drop 1 (dropWhile (\<lambda>c. c \<noteq> CHR 0x22) r)))
           in case strip_prefix ''><head><meta charset=\"'' r1 of
                None \<Rightarrow> []
              | Some r2 \<Rightarrow>
                  (let charset = takeWhile (\<lambda>c. c \<noteq> CHR 0x22) r2;
                       r3 = dropWhile (\<lambda>c. c \<noteq> CHR 0x22) r2
                   in case strip_prefix ''\" /><meta name=\"viewport\" content=\"'' r3 of
                        None \<Rightarrow> []
                      | Some r4 \<Rightarrow>
                          (let viewport = takeWhile (\<lambda>c. c \<noteq> CHR 0x22) r4;
                               r5 = dropWhile (\<lambda>c. c \<noteq> CHR 0x22) r4
                           in case strip_prefix ''\" /><title>'' r5 of
                                None \<Rightarrow> []
                              | Some r6 \<Rightarrow>
                                  (let title = takeWhile (\<lambda>c. c \<noteq> CHR ''<'') r6;
                                       r7 = dropWhile (\<lambda>c. c \<noteq> CHR ''<'') r6
                                   in if r7 = ''</title></head><body></body></html>''
                                      then [skeleton_raw lang charset viewport title]
                                      else [])))))"

section \<open>Lemmas on strings\<close>

lemma join_empty_sep: "join [] xs = concat xs"
  by (induction "[]::string" xs rule: join.induct) auto

lemma join_attrs_empty: "(join sep (map attr_pair a) = []) = (a = [])"
  by (cases a; cases "tl a") (auto simp: attr_pair_def)

section \<open>Serialisation of an element\<close>

lemma join_closed_form:
  "join sep (x # xs) = x @ concat (map (\<lambda>y. sep @ y) xs)"
  by (induction sep "x # xs" arbitrary: x xs rule: join.induct) auto

text \<open>
  C2. For an element whose name is one of meta, base, link, img, br, hr, input, area,
  source and that has no children, \<^verbatim>\<open>jsonToHtml\<close> gives \<^verbatim>\<open><name />\<close> when the attribute
  mapping is empty and \<^verbatim>\<open><name k="v" ... />\<close> otherwise: the first pair \<^verbatim>\<open>k="v"\<close>, and every
  further pair after exactly one space, in the order of the mapping, and one space
  before \<^verbatim>\<open>/>\<close>. For every other element, a void name with children included, it gives
  the open tag (\<^verbatim>\<open><name>\<close> or \<^verbatim>\<open><name k="v" ...>\<close>), the serialised children one after the
  other, and \<^verbatim>\<open></name>\<close>, also when there are no children. An absent \<^verbatim>\<open>attribs\<close> or
  \<^verbatim>\<open>children\<close> field counts as empty. The instances: an \<^verbatim>\<open>img\<close> with three attributes,
  the \<^verbatim>\<open>meta\<close> of the tests, \<^verbatim>\<open>br\<close> with and without fields and with a child, an empty
  \<^verbatim>\<open>p\<close>, and a nested \<^verbatim>\<open>div\<close>.
\<close>

theorem jsonToHtml_element:
  "jsonToHtml (Element name attribs_opt children_opt) =
     (let attribs = (case attribs_opt of None \<Rightarrow> [] | Some a \<Rightarrow> a);
          children = (case children_opt of None \<Rightarrow> [] | Some c \<Rightarrow> c);
          attrs = (case attribs of
                     [] \<Rightarrow> []
                   | (k, v) # rest \<Rightarrow>
                       k @ ''=\"'' @ v @ ''\"''
                       @ concat (map (\<lambda>(k, v). '' '' @ k @ ''=\"'' @ v @ ''\"'') rest))
      in if name \<in> {''meta'', ''base'', ''link'', ''img'', ''br'', ''hr'', ''input'', ''area'',
                      ''source''} \<and> children = []
         then (if attribs = [] then ''<'' @ name @ '' />''
               else ''<'' @ name @ '' '' @ attrs @ '' />'')
         else (if attribs = [] then ''<'' @ name @ ''>''
               else ''<'' @ name @ '' '' @ attrs @ ''>'')
              @ concat (map jsonToHtml children) @ ''</'' @ name @ ''>'')
   \<and> jsonToHtml (Element ''img''
         (Some [(''src'', ''a.png''), (''alt'', ''A''), (''id'', ''i'')]) (Some []))
       = ''<img src=\"a.png\" alt=\"A\" id=\"i\" />''
   \<and> jsonToHtml (Element ''meta'' (Some [(''charset'', ''utf-8'')]) (Some []))
       = ''<meta charset=\"utf-8\" />''
   \<and> jsonToHtml (Element ''br'' (Some []) (Some [])) = ''<br />''
   \<and> jsonToHtml (Element ''br'' None None) = ''<br />''
   \<and> jsonToHtml (Element ''br'' (Some []) (Some [Text ''x''])) = ''<br>x</br>''
   \<and> jsonToHtml (Element ''p'' (Some []) (Some [])) = ''<p></p>''
   \<and> jsonToHtml (Element ''div'' (Some [(''class'', ''test''), (''id'', ''x'')])
         (Some [Text ''Hello'', Element ''br'' (Some []) (Some []),
                Element ''a'' (Some [(''href'', ''/p''), (''rel'', ''next'')])
                  (Some [Text ''Link''])]))
       = ''<div class=\"test\" id=\"x\">Hello<br /><a href=\"/p\" rel=\"next\">Link</a></div>''"
proof -
  have tags: "set SELF_CLOSING_TAGS =
      {''meta'', ''base'', ''link'', ''img'', ''br'', ''hr'', ''input'', ''area'', ''source''}"
    by (simp add: SELF_CLOSING_TAGS_def)
  have attrs: "join '' '' (map attr_pair a) =
      (case a of
         [] \<Rightarrow> []
       | (k, v) # rest \<Rightarrow>
           k @ ''=\"'' @ v @ ''\"''
           @ concat (map (\<lambda>(k, v). '' '' @ k @ ''=\"'' @ v @ ''\"'') rest))" for a
  proof (cases a)
    case Nil
    then show ?thesis by simp
  next
    case (Cons kv rest)
    have "(\<lambda>y. '' '' @ y) \<circ> attr_pair = (\<lambda>(k, v). '' '' @ k @ ''=\"'' @ v @ ''\"'')"
      by (auto simp: attr_pair_def fun_eq_iff)
    then have "concat (map (\<lambda>y. '' '' @ y) (map attr_pair rest)) =
          concat (map (\<lambda>(k, v). '' '' @ k @ ''=\"'' @ v @ ''\"'') rest)"
      by (simp only: map_map)
    then show ?thesis using Cons
      by (cases kv) (simp add: join_closed_form attr_pair_def del: map_map)
  qed
  have general: "jsonToHtml (Element name attribs_opt children_opt) =
     (let attribs = (case attribs_opt of None \<Rightarrow> [] | Some a \<Rightarrow> a);
          children = (case children_opt of None \<Rightarrow> [] | Some c \<Rightarrow> c);
          attrs = (case attribs of
                     [] \<Rightarrow> []
                   | (k, v) # rest \<Rightarrow>
                       k @ ''=\"'' @ v @ ''\"''
                       @ concat (map (\<lambda>(k, v). '' '' @ k @ ''=\"'' @ v @ ''\"'') rest))
      in if name \<in> {''meta'', ''base'', ''link'', ''img'', ''br'', ''hr'', ''input'', ''area'',
                      ''source''} \<and> children = []
         then (if attribs = [] then ''<'' @ name @ '' />''
               else ''<'' @ name @ '' '' @ attrs @ '' />'')
         else (if attribs = [] then ''<'' @ name @ ''>''
               else ''<'' @ name @ '' '' @ attrs @ ''>'')
              @ concat (map jsonToHtml children) @ ''</'' @ name @ ''>'')"
    unfolding tags[symmetric] attrs[symmetric]
    by (simp add: Let_def join_empty_sep join_attrs_empty)
  have examples: "jsonToHtml (Element ''img''
         (Some [(''src'', ''a.png''), (''alt'', ''A''), (''id'', ''i'')]) (Some []))
       = ''<img src=\"a.png\" alt=\"A\" id=\"i\" />''"
    "jsonToHtml (Element ''meta'' (Some [(''charset'', ''utf-8'')]) (Some []))
       = ''<meta charset=\"utf-8\" />''"
    "jsonToHtml (Element ''br'' (Some []) (Some [])) = ''<br />''"
    "jsonToHtml (Element ''br'' None None) = ''<br />''"
    "jsonToHtml (Element ''br'' (Some []) (Some [Text ''x''])) = ''<br>x</br>''"
    "jsonToHtml (Element ''p'' (Some []) (Some [])) = ''<p></p>''"
    "jsonToHtml (Element ''div'' (Some [(''class'', ''test''), (''id'', ''x'')])
         (Some [Text ''Hello'', Element ''br'' (Some []) (Some []),
                Element ''a'' (Some [(''href'', ''/p''), (''rel'', ''next'')])
                  (Some [Text ''Link''])]))
       = ''<div class=\"test\" id=\"x\">Hello<br /><a href=\"/p\" rel=\"next\">Link</a></div>''"
    by (simp_all add: SELF_CLOSING_TAGS_def attr_pair_def)
  show ?thesis
    using general examples by (intro conjI)
qed

section \<open>Parsing into a tree\<close>

lemma trim_empty: "(trim d = []) = (\<forall>c \<in> set d. is_space c)"
proof -
  have "(dropWhile is_space (rev (dropWhile is_space d)) = []) =
        (\<forall>c \<in> set (dropWhile is_space d). is_space c)"
    by (simp add: dropWhile_eq_Nil_conv)
  also have "\<dots> = (dropWhile is_space d = [])"
  proof
    assume all: "\<forall>c \<in> set (dropWhile is_space d). is_space c"
    show "dropWhile is_space d = []"
    proof (rule ccontr)
      assume ne: "dropWhile is_space d \<noteq> []"
      then have "\<not> is_space (hd (dropWhile is_space d))" by (rule hd_dropWhile)
      moreover have "hd (dropWhile is_space d) \<in> set (dropWhile is_space d)"
        using ne by simp
      ultimately show False using all by blast
    qed
  next
    assume e: "dropWhile is_space d = []"
    show "\<forall>c \<in> set (dropWhile is_space d). is_space c" unfolding e by simp
  qed
  also have "\<dots> = (\<forall>c \<in> set d. is_space c)"
    by (simp add: dropWhile_eq_Nil_conv)
  finally show ?thesis by (simp add: trim_def)
qed

lemma nodeToJson_text:
  "nodeToJson (RawText d) = (if list_ex (\<lambda>c. \<not> is_space c) d then Some (Text d) else None)"
  by (auto simp: trim_empty list_ex_iff)

lemma nodeToJson_truthy: "truthy (nodeToJson r) = (nodeToJson r \<noteq> None)"
proof (cases r)
  case (RawText d)
  have "trim d \<noteq> [] \<Longrightarrow> d \<noteq> []" by (auto simp: trim_empty)
  then show ?thesis using RawText by auto
next
  case (RawElement type name attribs children)
  then show ?thesis by simp
next
  case RawOther
  then show ?thesis by simp
qed

lemma filter_truthy: "map the (filter truthy (map nodeToJson rs)) = List.map_filter nodeToJson rs"
  by (induction rs) (auto simp: nodeToJson_truthy List.map_filter_simps split: option.splits)

lemma nodeToJson_element:
  "nodeToJson (RawElement type name attribs children) =
     Some (Element name
       (Some (case attribs of None \<Rightarrow> [] | Some a \<Rightarrow> a))
       (Some (List.map_filter nodeToJson (case children of None \<Rightarrow> [] | Some c \<Rightarrow> c))))"
  by (simp add: filter_truthy)

lemma find_html_none:
  "\<not> list_ex html_element rs \<Longrightarrow> find (\<lambda>n. raw_name n = Some ''html'') rs = None"
proof (induction rs)
  case Nil
  then show ?case by simp
next
  case (Cons r rs)
  then show ?case by (cases r) auto
qed

lemma find_html_first:
  "\<not> list_ex html_element pre \<Longrightarrow>
   find (\<lambda>n. raw_name n = Some ''html'') (pre @ RawElement type ''html'' attribs children # post)
   = Some (RawElement type ''html'' attribs children)"
proof (induction pre)
  case Nil
  then show ?case by simp
next
  case (Cons r rs)
  then show ?case by (cases r) auto
qed

lemma nodeToJson_canonical:
  "nodeToJson r = Some n \<Longrightarrow> canonical n \<and> list_all visible_text (preorder n)"
proof (induction r arbitrary: n rule: nodeToJson.induct)
  case (1 d)
  then show ?case by (auto simp: trim_empty list_ex_iff split: if_splits)
next
  case 2
  then show ?case by simp
next
  case (3 type name attribs children)
  let ?cs = "case children of None \<Rightarrow> [] | Some c \<Rightarrow> c"
  have kids: "m \<in> set (List.map_filter nodeToJson ?cs) \<Longrightarrow>
      canonical m \<and> list_all visible_text (preorder m)" for m
  proof -
    assume "m \<in> set (List.map_filter nodeToJson ?cs)"
    then obtain c where "c \<in> set ?cs" "nodeToJson c = Some m"
      by (auto simp: List.map_filter_def)
    then show ?thesis using 3(1) by blast
  qed
  have n: "n = Element name (Some (case attribs of None \<Rightarrow> [] | Some a \<Rightarrow> a))
       (Some (List.map_filter nodeToJson ?cs))"
    using 3(2) by (simp only: nodeToJson_element option.inject)
  show ?case
    unfolding n using kids by (auto simp: list_all_iff)
qed

text \<open>
  C1. For every text and every parse adapter: if the parsed document has no top-level
  element named \<^verbatim>\<open>html\<close>, \<^verbatim>\<open>htmlToJson\<close> returns \<^verbatim>\<open>null\<close> (the model has no failing branch
  on the way: the search reads \<^verbatim>\<open>n.name\<close> of each top-level node and nothing else);
  otherwise it returns the canonical tree of the first such element. In that tree a raw
  text node with a character that is not white space is the string child with the same
  data, a raw text node of white space only is left out, a raw node of type tag, script
  or style is an element with its name, an attribs mapping that is always present and
  the mapped children without the left-out ones, and a raw node of any other type gives
  no node. The result is canonical and has no text node of white space only.
\<close>

theorem htmlToJson_tree:
  "(\<not> list_ex html_element (parseDocument html) \<longrightarrow> htmlToJson parseDocument html = None)
   \<and> (parseDocument html = pre @ RawElement type ''html'' attribs children # post
       \<and> \<not> list_ex html_element pre \<longrightarrow>
      htmlToJson parseDocument html = nodeToJson (RawElement type ''html'' attribs children))
   \<and> nodeToJson (RawText d) =
       (if list_ex (\<lambda>c. \<not> is_space c) d then Some (Text d) else None)
   \<and> nodeToJson (RawElement type name attribs children) =
       Some (Element name
         (Some (case attribs of None \<Rightarrow> [] | Some a \<Rightarrow> a))
         (Some (List.map_filter nodeToJson (case children of None \<Rightarrow> [] | Some c \<Rightarrow> c))))
   \<and> nodeToJson RawOther = None
   \<and> (nodeToJson r = Some n \<longrightarrow> canonical n \<and> list_all visible_text (preorder n))"
  using nodeToJson_canonical[of r n]
  by (simp add: htmlToJson_def find_html_none find_html_first nodeToJson_text filter_truthy
        del: nodeToJson.simps(1))

text \<open>
  A fragment without \<^verbatim>\<open>html\<close>; and a document with a doctype, a line break, a comment, a
  head of blanks, a body without attribs and a second \<^verbatim>\<open>html\<close> element.
\<close>

theorem htmlToJson_tree_witness:
  "htmlToJson (\<lambda>h. [RawElement Tag ''div'' (Some []) (Some [RawText ''test''])]) ''<div>test</div>''
   = None
   \<and> htmlToJson
       (\<lambda>h. [RawOther, RawText [CHR 0x0A],
             RawElement Tag ''html'' (Some [(''lang'', ''en'')])
               (Some [RawElement Tag ''head'' (Some []) (Some [RawText ''   '']),
                      RawOther,
                      RawElement Tag ''body'' None
                        (Some [RawText '' x '', RawElement Script ''script'' (Some []) None])]),
             RawElement Tag ''html'' (Some []) (Some [])])
       ''<!DOCTYPE html> ...''
     = Some (Element ''html'' (Some [(''lang'', ''en'')])
         (Some [Element ''head'' (Some []) (Some []),
                Element ''body'' (Some [])
                  (Some [Text '' x '', Element ''script'' (Some []) (Some [])])]))
   \<and> canonical (Element ''html'' (Some [(''lang'', ''en'')])
         (Some [Element ''head'' (Some []) (Some []),
                Element ''body'' (Some [])
                  (Some [Text '' x '', Element ''script'' (Some []) (Some [])])]))"
  using
    htmlToJson_tree[where parseDocument = "\<lambda>h. [RawElement Tag ''div'' (Some []) (Some [RawText ''test''])]"
      and html = "''<div>test</div>''"]
    htmlToJson_tree[where parseDocument = "\<lambda>h. [RawOther, RawText [CHR 0x0A],
             RawElement Tag ''html'' (Some [(''lang'', ''en'')])
               (Some [RawElement Tag ''head'' (Some []) (Some [RawText ''   '']),
                      RawOther,
                      RawElement Tag ''body'' None
                        (Some [RawText '' x '', RawElement Script ''script'' (Some []) None])]),
             RawElement Tag ''html'' (Some []) (Some [])]"
      and html = "''<!DOCTYPE html> ...''" and pre = "[RawOther, RawText [CHR 0x0A]]"
      and type = Tag and attribs = "Some [(''lang'', ''en'')]"
      and children = "Some [RawElement Tag ''head'' (Some []) (Some [RawText ''   '']),
                      RawOther,
                      RawElement Tag ''body'' None
                        (Some [RawText '' x '', RawElement Script ''script'' (Some []) None])]"
      and post = "[RawElement Tag ''html'' (Some []) (Some [])]"
      and r = "RawElement Tag ''html'' (Some [(''lang'', ''en'')])
               (Some [RawElement Tag ''head'' (Some []) (Some [RawText ''   '']),
                      RawOther,
                      RawElement Tag ''body'' None
                        (Some [RawText '' x '', RawElement Script ''script'' (Some []) None])])"
      and n = "Element ''html'' (Some [(''lang'', ''en'')])
         (Some [Element ''head'' (Some []) (Some []),
                Element ''body'' (Some [])
                  (Some [Text '' x '', Element ''script'' (Some []) (Some [])])])"]
  by (simp add: trim_def is_space_def)

section \<open>The round trip of a document skeleton\<close>

lemma skeleton_html:
  "jsonToHtml (createHtmlDocument title_opt opts) =
     ''<html''
     @ (case opt_lang opts of
          None \<Rightarrow> []
        | Some l \<Rightarrow> if l \<noteq> [] then '' lang=\"'' @ l @ ''\"'' else [])
     @ ''><head><meta charset=\"''
     @ (case opt_charset opts of None \<Rightarrow> ''utf-8'' | Some c \<Rightarrow> c)
     @ ''\" /><meta name=\"viewport\" content=\"''
     @ (case opt_viewport opts of
          None \<Rightarrow> ''width=device-width, initial-scale=1.0'' | Some v \<Rightarrow> v)
     @ ''\" /><title>''
     @ (case title_opt of None \<Rightarrow> [] | Some t \<Rightarrow> t)
     @ ''</title></head><body></body></html>''"
  by (simp add: createHtmlDocument_def SELF_CLOSING_TAGS_def attr_pair_def Let_def
           split: option.splits)

text \<open>
  C3, as stated, fails, whatever the parse adapter does: \<^verbatim>\<open>jsonToHtml\<close> escapes nothing, and
  two skeletons with different \<^verbatim>\<open>lang\<close> attributes serialise to the same text
  \<^verbatim>\<open><html lang="a"><head><meta charset="b"><head><meta charset="c" />...\<close>, one with
  \<^verbatim>\<open>lang\<close> \<^verbatim>\<open>a\<close> and a character set that holds markup, one with a \<^verbatim>\<open>lang\<close> that holds
  markup. A parser maps the text to one tree, which cannot have the attribs of both.
\<close>

theorem roundtrip_collision:
  "jsonToHtml (createHtmlDocument None
      \<lparr>opt_lang = Some ''a'', opt_charset = Some ''b\"><head><meta charset=\"c'',
       opt_viewport = None\<rparr>)
   = jsonToHtml (createHtmlDocument None
      \<lparr>opt_lang = Some ''a\"><head><meta charset=\"b'', opt_charset = Some ''c'',
       opt_viewport = None\<rparr>)
   \<and> \<not> (\<exists>parseDocument.
         roundtrip_ok parseDocument (createHtmlDocument None
           \<lparr>opt_lang = Some ''a'', opt_charset = Some ''b\"><head><meta charset=\"c'',
            opt_viewport = None\<rparr>)
         \<and> roundtrip_ok parseDocument (createHtmlDocument None
           \<lparr>opt_lang = Some ''a\"><head><meta charset=\"b'', opt_charset = Some ''c'',
            opt_viewport = None\<rparr>))"
proof -
  let ?T1 = "createHtmlDocument None
      \<lparr>opt_lang = Some ''a'', opt_charset = Some ''b\"><head><meta charset=\"c'',
       opt_viewport = None\<rparr>"
  let ?T2 = "createHtmlDocument None
      \<lparr>opt_lang = Some ''a\"><head><meta charset=\"b'', opt_charset = Some ''c'',
       opt_viewport = None\<rparr>"
  have same: "jsonToHtml ?T1 = jsonToHtml ?T2"
    by (simp add: skeleton_html)
  have differ: "node_attribs ?T1 \<noteq> node_attribs ?T2"
    by (simp add: createHtmlDocument_def)
  have "\<not> (roundtrip_ok parseDocument ?T1 \<and> roundtrip_ok parseDocument ?T2)" for parseDocument
    using differ unfolding roundtrip_ok_def same
    by (auto split: option.splits)
  then show ?thesis using same by blast
qed

lemma strip_prefix_append: "strip_prefix p (p @ s) = Some s"
  by (induction p) auto

lemma takeWhile_until:
  "c \<notin> set a \<Longrightarrow> takeWhile (\<lambda>x. x \<noteq> c) (a @ c # r) = a"
  by (induction a) auto

lemma dropWhile_until:
  "c \<notin> set a \<Longrightarrow> dropWhile (\<lambda>x. x \<noteq> c) (a @ c # r) = c # r"
  by (induction a) auto

lemma plain_chars:
  "plain s \<Longrightarrow> CHR 0x22 \<notin> set s \<and> CHR ''<'' \<notin> set s"
  by (auto simp: plain_def list_all_iff)

lemma skeleton_reader_reads: "reads_skeleton skeleton_reader"
  unfolding reads_skeleton_def
proof (intro allI impI)
  fix lang charset viewport title
  assume p: "plain lang \<and> plain charset \<and> plain viewport \<and> plain title"
  then have q: "CHR 0x22 \<notin> set lang" "CHR 0x22 \<notin> set charset" "CHR 0x22 \<notin> set viewport"
    "CHR ''<'' \<notin> set title"
    using plain_chars by auto
  note tk = takeWhile_until dropWhile_until
  show "skeleton_reader (skeleton_text lang charset viewport title)
        = [skeleton_raw lang charset viewport title]"
  proof (cases "lang = []")
    case True
    show ?thesis
      using tk[OF q(2)] tk[OF q(3)] tk[OF q(4)]
      by (simp add: True skeleton_reader_def skeleton_text_def skeleton_raw_def)
  next
    case False
    show ?thesis
      using tk[OF q(1)] tk[OF q(2)] tk[OF q(3)] tk[OF q(4)]
      by (simp add: False skeleton_reader_def skeleton_text_def skeleton_raw_def)
  qed
qed

lemma skeleton_html_text:
  "jsonToHtml (createHtmlDocument title_opt opts) =
     skeleton_text (case opt_lang opts of None \<Rightarrow> [] | Some l \<Rightarrow> l)
       (case opt_charset opts of None \<Rightarrow> ''utf-8'' | Some c \<Rightarrow> c)
       (case opt_viewport opts of
          None \<Rightarrow> ''width=device-width, initial-scale=1.0'' | Some v \<Rightarrow> v)
       (case title_opt of None \<Rightarrow> [] | Some t \<Rightarrow> t)"
  by (simp add: skeleton_html skeleton_text_def split: option.splits)

lemma htmlToJson_skeleton_raw:
  "parseDocument html = [skeleton_raw lang charset viewport title] \<Longrightarrow>
   htmlToJson parseDocument html =
     Some (Element ''html'' (Some (if lang \<noteq> [] then [(''lang'', lang)] else []))
       (Some
         [Element ''head'' (Some [])
            (Some
              [Element ''meta'' (Some [(''charset'', charset)]) (Some []),
               Element ''meta'' (Some [(''name'', ''viewport''), (''content'', viewport)])
                 (Some []),
               Element ''title'' (Some [])
                 (Some (if list_ex (\<lambda>c. \<not> is_space c) title then [Text title] else []))]),
          Element ''body'' (Some []) (Some [])]))"
  by (auto simp: htmlToJson_def skeleton_raw_def trim_empty list_ex_iff)

text \<open>
  C3, amended. The skeleton of \<^verbatim>\<open>createHtmlDocument\<close> serialises to
  \<^verbatim>\<open><html lang="L"><head><meta charset="C" /><meta name="viewport" content="V" />\<close>
  \<^verbatim>\<open><title>T</title></head><body></body></html>\<close> (without the \<^verbatim>\<open>lang\<close> attribute when the
  option is absent or empty), nothing escaped. When the title and the three options hold none
  of the markup characters \<^verbatim>\<open><\<close>, \<^verbatim>\<open>>\<close>, \<^verbatim>\<open>"\<close> and \<^verbatim>\<open>&\<close>, and the parse adapter reads such
  markup as it is written, \<^verbatim>\<open>htmlToJson\<close> of the text has the name, the attribs and the
  number of top-level children of the skeleton; when the title moreover has a character that
  is not white space, \<^verbatim>\<open>htmlToJson\<close> of the text is the skeleton itself. There is such an
  adapter: \<^verbatim>\<open>skeleton_reader\<close> reads the markup of every such skeleton.
\<close>

theorem roundtrip_plain_skeleton:
  "(let lang = (case opt_lang opts of None \<Rightarrow> [] | Some l \<Rightarrow> l);
        charset = (case opt_charset opts of None \<Rightarrow> ''utf-8'' | Some c \<Rightarrow> c);
        viewport = (case opt_viewport opts of
                      None \<Rightarrow> ''width=device-width, initial-scale=1.0'' | Some v \<Rightarrow> v);
        title = (case title_opt of None \<Rightarrow> [] | Some t \<Rightarrow> t)
    in jsonToHtml (createHtmlDocument title_opt opts) = skeleton_text lang charset viewport title
       \<and> (reads_skeleton parseDocument
           \<and> plain lang \<and> plain charset \<and> plain viewport \<and> plain title \<longrightarrow>
          roundtrip_ok parseDocument (createHtmlDocument title_opt opts)
          \<and> (list_ex (\<lambda>c. \<not> is_space c) title \<longrightarrow>
             htmlToJson parseDocument (jsonToHtml (createHtmlDocument title_opt opts))
             = Some (createHtmlDocument title_opt opts))))
   \<and> reads_skeleton skeleton_reader"
proof -
  let ?lang = "case opt_lang opts of None \<Rightarrow> [] | Some l \<Rightarrow> l"
  let ?charset = "case opt_charset opts of None \<Rightarrow> ''utf-8'' | Some c \<Rightarrow> c"
  let ?viewport = "case opt_viewport opts of
                      None \<Rightarrow> ''width=device-width, initial-scale=1.0'' | Some v \<Rightarrow> v"
  let ?title = "case title_opt of None \<Rightarrow> [] | Some t \<Rightarrow> t"
  let ?T = "createHtmlDocument title_opt opts"
  have ser: "jsonToHtml ?T = skeleton_text ?lang ?charset ?viewport ?title"
    by (rule skeleton_html_text)
  have rt: "roundtrip_ok parseDocument ?T
          \<and> (list_ex (\<lambda>c. \<not> is_space c) ?title \<longrightarrow>
             htmlToJson parseDocument (jsonToHtml ?T) = Some ?T)"
    if a: "reads_skeleton parseDocument
           \<and> plain ?lang \<and> plain ?charset \<and> plain ?viewport \<and> plain ?title"
  proof -
    from a have "parseDocument (jsonToHtml ?T) = [skeleton_raw ?lang ?charset ?viewport ?title]"
      unfolding ser reads_skeleton_def by blast
    then have h: "htmlToJson parseDocument (jsonToHtml ?T) =
     Some (Element ''html'' (Some (if ?lang \<noteq> [] then [(''lang'', ?lang)] else []))
       (Some
         [Element ''head'' (Some [])
            (Some
              [Element ''meta'' (Some [(''charset'', ?charset)]) (Some []),
               Element ''meta'' (Some [(''name'', ''viewport''), (''content'', ?viewport)])
                 (Some []),
               Element ''title'' (Some [])
                 (Some (if list_ex (\<lambda>c. \<not> is_space c) ?title then [Text ?title] else []))]),
          Element ''body'' (Some []) (Some [])]))"
      by (rule htmlToJson_skeleton_raw)
    have T: "?T = Element ''html'' (Some (if ?lang \<noteq> [] then [(''lang'', ?lang)] else []))
       (Some
         [Element ''head'' (Some [])
            (Some
              [Element ''meta'' (Some [(''charset'', ?charset)]) (Some []),
               Element ''meta'' (Some [(''name'', ''viewport''), (''content'', ?viewport)])
                 (Some []),
               Element ''title'' (Some []) (Some [Text ?title])]),
          Element ''body'' (Some []) (Some [])])"
      by (auto simp: createHtmlDocument_def split: option.splits)
    show ?thesis
      unfolding roundtrip_ok_def h
      by (subst (1 2 3 4) T) simp
  qed
  show ?thesis
    unfolding Let_def using ser rt skeleton_reader_reads by blast
qed

text \<open>The round trip of the test, the text read back by \<^verbatim>\<open>skeleton_reader\<close>.\<close>

theorem roundtrip_plain_skeleton_witness:
  "skeleton_reader
     (jsonToHtml (createHtmlDocument (Some ''Round Trip Test'')
        \<lparr>opt_lang = Some ''en'', opt_charset = None, opt_viewport = None\<rparr>))
   = [skeleton_raw ''en'' ''utf-8'' ''width=device-width, initial-scale=1.0''
        ''Round Trip Test'']
   \<and> roundtrip_ok skeleton_reader
       (createHtmlDocument (Some ''Round Trip Test'')
          \<lparr>opt_lang = Some ''en'', opt_charset = None, opt_viewport = None\<rparr>)
   \<and> htmlToJson skeleton_reader
       (jsonToHtml (createHtmlDocument (Some ''Round Trip Test'')
          \<lparr>opt_lang = Some ''en'', opt_charset = None, opt_viewport = None\<rparr>))
     = Some (createHtmlDocument (Some ''Round Trip Test'')
          \<lparr>opt_lang = Some ''en'', opt_charset = None, opt_viewport = None\<rparr>)"
proof -
  let ?T = "createHtmlDocument (Some ''Round Trip Test'')
          \<lparr>opt_lang = Some ''en'', opt_charset = None, opt_viewport = None\<rparr>"
  let ?text = "skeleton_text ''en'' ''utf-8'' ''width=device-width, initial-scale=1.0''
        ''Round Trip Test''"
  have p: "plain ''en''" "plain ''utf-8''" "plain ''width=device-width, initial-scale=1.0''"
    "plain ''Round Trip Test''"
    by (simp_all add: plain_def)
  have s: "list_ex (\<lambda>c. \<not> is_space c) ''Round Trip Test''"
    by (simp add: is_space_def)
  have inst: "jsonToHtml ?T = ?text
      \<and> (reads_skeleton skeleton_reader
           \<and> plain ''en'' \<and> plain ''utf-8''
           \<and> plain ''width=device-width, initial-scale=1.0'' \<and> plain ''Round Trip Test'' \<longrightarrow>
          roundtrip_ok skeleton_reader ?T
          \<and> (list_ex (\<lambda>c. \<not> is_space c) ''Round Trip Test'' \<longrightarrow>
             htmlToJson skeleton_reader (jsonToHtml ?T) = Some ?T))"
    and r: "reads_skeleton skeleton_reader"
    using roundtrip_plain_skeleton[where parseDocument = skeleton_reader
        and title_opt = "Some ''Round Trip Test''"
        and opts = "\<lparr>opt_lang = Some ''en'', opt_charset = None, opt_viewport = None\<rparr>"]
    unfolding Let_def option.case options.select_convs by blast+
  have read: "skeleton_reader ?text
      = [skeleton_raw ''en'' ''utf-8'' ''width=device-width, initial-scale=1.0''
           ''Round Trip Test'']"
    using r p unfolding reads_skeleton_def by blast
  from inst have ser: "jsonToHtml ?T = ?text" by (rule conjunct1)
  have "skeleton_reader (jsonToHtml ?T)
      = [skeleton_raw ''en'' ''utf-8'' ''width=device-width, initial-scale=1.0''
           ''Round Trip Test'']"
    by (simp only: ser read)
  moreover have "roundtrip_ok skeleton_reader ?T
      \<and> htmlToJson skeleton_reader (jsonToHtml ?T) = Some ?T"
    using inst r p s by blast
  ultimately show ?thesis by blast
qed

section \<open>Traversal\<close>

lemma fold_concat_map:
  "(\<And>x st. x \<in> set xs \<Longrightarrow> f x st = fold g (h x) st) \<Longrightarrow>
   fold f xs st = fold g (concat (map h xs)) st"
  by (induction xs arbitrary: st) auto

lemma traverse_node_fold:
  "traverse_node callback n st = fold callback (filter (\<lambda>n. \<not> falsy n) (preorder n)) st"
proof (induction n arbitrary: st rule: preorder.induct)
  case (1 s)
  then show ?case by simp
next
  case (2 name attribs children)
  show ?case
  proof (cases children)
    case None
    then show ?thesis by simp
  next
    case (Some cs)
    have "fold (traverse_node callback) cs st' =
          fold callback (concat (map (\<lambda>n. filter (\<lambda>n. \<not> falsy n) (preorder n)) cs)) st'"
      for st'
      by (rule fold_concat_map) (use 2 Some in auto)
    then show ?thesis using Some by (simp add: filter_concat comp_def)
  qed
qed

lemma traverse_fold:
  "traverse callback a st = fold callback (filter (\<lambda>n. \<not> falsy n) (preorder_arg a)) st"
proof (cases a)
  case Null
  then show ?thesis by simp
next
  case (Many ns)
  have "fold (traverse_node callback) ns st =
        fold callback (concat (map (\<lambda>n. filter (\<lambda>n. \<not> falsy n) (preorder n)) ns)) st"
    by (rule fold_concat_map) (simp add: traverse_node_fold)
  then show ?thesis using Many by (simp add: filter_concat comp_def)
next
  case (One n)
  then show ?thesis by (simp add: traverse_node_fold)
qed

lemma fold_snoc: "fold (\<lambda>n visited. visited @ [n]) xs acc = acc @ xs"
  by (induction xs arbitrary: acc) auto

text \<open>
  C4, as stated, fails. The skeleton that \<^verbatim>\<open>createHtmlDocument()\<close> builds has seven nodes,
  the last but one being the empty string under \<^verbatim>\<open>title\<close>; \<^verbatim>\<open>traverse\<close> calls the callback
  six times, since \<^verbatim>\<open>!node\<close> holds of the empty string and the walk returns before the
  callback.
\<close>

theorem traverse_skips_empty_text:
  "length (preorder_arg (One (createHtmlDocument None default_options))) = 7
   \<and> Text [] \<in> set (preorder_arg (One (createHtmlDocument None default_options)))
   \<and> traverse (\<lambda>n count. count + 1) (One (createHtmlDocument None default_options)) (0::nat) = 6
   \<and> Text [] \<notin> set (traverse (\<lambda>n visited. visited @ [n])
                       (One (createHtmlDocument None default_options)) [])"
  by (simp add: createHtmlDocument_def default_options_def)

text \<open>
  C4, amended. For every argument (\<^verbatim>\<open>null\<close>, an array of roots, a single root), every
  callback and every state of the caller, \<^verbatim>\<open>traverse\<close> runs the callback once on each node
  that is not the empty string, in depth-first pre-order: a parent before its children,
  the children from left to right, the roots of an array in order, the non-empty text
  nodes included. A \<^verbatim>\<open>null\<close> root is a no-op, an element without a \<^verbatim>\<open>children\<close> field is
  walked as an element without children, and an empty-string text node is passed over
  like an absent node.
\<close>

theorem traverse_preorder:
  "traverse callback a st = fold callback (filter (\<lambda>n. \<not> falsy n) (preorder_arg a)) st
   \<and> traverse callback Null st = st
   \<and> traverse callback (One (Element name attribs None)) st =
       callback (Element name attribs None) st
   \<and> traverse (\<lambda>n visited. visited @ [n]) a [] = filter (\<lambda>n. n \<noteq> Text []) (preorder_arg a)"
proof -
  have "falsy n = (n = Text [])" for n
    by (cases n) auto
  then have "filter (\<lambda>n. \<not> falsy n) xs = filter (\<lambda>n. n \<noteq> Text []) xs" for xs
    by simp
  then show ?thesis
    by (simp add: traverse_fold fold_snoc)
qed

section \<open>Search\<close>

lemma hasNode_node_visited:
  "hasNode_node p n =
   list_ex (\<lambda>n. p (getNodeProps n)) (filter (\<lambda>n. \<not> falsy n) (preorder n))"
proof (induction n rule: preorder.induct)
  case (1 s)
  then show ?case by simp
next
  case (2 name attribs children)
  show ?case
  proof (cases children)
    case None
    then show ?thesis by simp
  next
    case (Some cs)
    with 2 have "list_ex (hasNode_node p) cs =
      list_ex (\<lambda>n. p (getNodeProps n))
        (concat (map (\<lambda>n. filter (\<lambda>n. \<not> falsy n) (preorder n)) cs))"
      by (auto simp: list_ex_iff)
    then show ?thesis using Some by (auto simp add: filter_concat comp_def)
  qed
qed

lemma hasNode_visited:
  "hasNode p a =
   list_ex (\<lambda>n. p (getNodeProps n)) (filter (\<lambda>n. \<not> falsy n) (preorder_arg a))"
  by (cases a) (auto simp: hasNode_node_visited list_ex_iff)

text \<open>
  C5, as stated, fails. In the skeleton of \<^verbatim>\<open>createHtmlDocument()\<close> the text node under
  \<^verbatim>\<open>title\<close> is the empty string; its view has a null name and the content \<^verbatim>\<open>''\<close>, so it
  satisfies the predicate ``the name is null and the content is empty'', and yet
  \<^verbatim>\<open>hasNode\<close> answers false: it returns on \<^verbatim>\<open>!node\<close> before the predicate is asked.
\<close>

theorem hasNode_misses_empty_text:
  "list_ex (\<lambda>n. v_name (getNodeProps n) = None \<and> v_content (getNodeProps n) = Some [])
     (preorder_arg (One (createHtmlDocument None default_options)))
   \<and> \<not> hasNode (\<lambda>v. v_name v = None \<and> v_content v = Some [])
         (One (createHtmlDocument None default_options))"
  by (simp add: createHtmlDocument_def default_options_def)

text \<open>
  C5, amended. \<^verbatim>\<open>hasNode\<close> returns true iff the view of some node that \<^verbatim>\<open>traverse\<close> visits
  satisfies the predicate, that is, of some node of the tree other than an empty-string
  text node. The view of a string node has a null name, null attribs and the string as
  content; the view of an element has its name and attribs, and its content is the text
  \<open>s\<close> iff its children are exactly the one string \<open>s\<close>, and null otherwise, also when
  there are several text children. \<^verbatim>\<open>hasNode(null, p)\<close> and \<^verbatim>\<open>hasNode([], p)\<close> are false.
\<close>

theorem hasNode_iff:
  "hasNode p a =
     list_ex (\<lambda>n. p (getNodeProps n)) (traverse (\<lambda>n visited. visited @ [n]) a [])
   \<and> hasNode p a =
     list_ex (\<lambda>n. p (getNodeProps n)) (filter (\<lambda>n. n \<noteq> Text []) (preorder_arg a))
   \<and> getNodeProps (Text s) = \<lparr>v_name = None, v_attribs = None, v_content = Some s\<rparr>
   \<and> v_name (getNodeProps (Element name attribs children)) = Some name
   \<and> v_attribs (getNodeProps (Element name attribs children)) = attribs
   \<and> (v_content (getNodeProps (Element name attribs children)) = Some t)
       = (children = Some [Text t])
   \<and> v_content (getNodeProps (Element name attribs (Some (Text t # Text u # cs)))) = None
   \<and> hasNode p Null = False
   \<and> hasNode p (Many []) = False"
proof -
  have "falsy n = (n = Text [])" for n
    by (cases n) auto
  then have nonempty: "filter (\<lambda>n. \<not> falsy n) xs = filter (\<lambda>n. n \<noteq> Text []) xs" for xs
    by simp
  have content: "(v_content (getNodeProps (Element name attribs children)) = Some t)
       = (children = Some [Text t])"
    by (auto split: option.splits list.splits node.splits)
  show ?thesis
    using content by (simp add: hasNode_visited traverse_fold fold_snoc nonempty)
qed

section \<open>Pruning\<close>

lemma preorder_removeNodes_node:
  "preorder (removeNodes_node p n) = map (removeNodes_node p) (n # survivors p n)"
proof (induction p n rule: removeNodes_node.induct)
  case (1 predicate s)
  then show ?case by simp
next
  case (2 predicate name attribs)
  then show ?case by simp
next
  case (3 predicate name attribs cs)
  let ?keep = "filter (\<lambda>c. \<not> predicate (getNodeProps c)) cs"
  have "concat (map preorder (map (removeNodes_node predicate) ?keep)) =
        concat (map (\<lambda>c. map (removeNodes_node predicate) (c # survivors predicate c)) ?keep)"
    using 3 by (auto intro!: arg_cong[where f=concat] simp: Let_def)
  then show ?case
    by (simp add: map_concat comp_def Let_def)
qed

text \<open>
  C6. \<^verbatim>\<open>removeNodes\<close> takes \<^verbatim>\<open>null\<close> (a no-op), an array of roots (each pruned) or a single
  root. A root is never tested and never removed: a string or an element without a
  \<^verbatim>\<open>children\<close> field is returned as it is, and an element keeps its name and attribs. At
  every level exactly the children whose view, taken before anything below them is
  pruned, satisfies the predicate are removed, and the pruning goes on in the remaining
  children only: the nodes of the pruned tree are, in pre-order, the root and the
  \<^const>\<open>survivors\<close>, each pruned in turn. With a predicate that holds of every view the
  root remains, with no children. For the siblings \<^verbatim>\<open>p.remove-me\<close>, \<^verbatim>\<open>p.keep-me\<close>,
  \<^verbatim>\<open>span.remove-me\<close> and the predicate ``class equals remove-me'', exactly \<^verbatim>\<open>p.keep-me\<close> is
  left.
\<close>

theorem removeNodes_prunes:
  "removeNodes p Null = Null
   \<and> removeNodes p (Many ns) = Many (map (removeNodes_node p) ns)
   \<and> removeNodes p (One n) = One (removeNodes_node p n)
   \<and> removeNodes_node p (Text s) = Text s
   \<and> removeNodes_node p (Element name attribs None) = Element name attribs None
   \<and> removeNodes_node p (Element name attribs (Some cs)) =
       Element name attribs
         (Some (map (removeNodes_node p) (filter (\<lambda>c. \<not> p (getNodeProps c)) cs)))
   \<and> preorder (removeNodes_node p n) = map (removeNodes_node p) (n # survivors p n)
   \<and> removeNodes_node (\<lambda>v. True) (Element name attribs (Some cs)) =
       Element name attribs (Some [])
   \<and> removeNodes (\<lambda>v. get_prop (v_attribs v) ''class'' = Some ''remove-me'')
        (One (Element ''div'' (Some [])
          (Some [Element ''p'' (Some [(''class'', ''remove-me'')]) (Some [Text ''text1'']),
                 Element ''p'' (Some [(''class'', ''keep-me'')]) (Some [Text ''text2'']),
                 Element ''span'' (Some [(''class'', ''remove-me'')]) (Some [Text ''text3''])])))
       = One (Element ''div'' (Some [])
          (Some [Element ''p'' (Some [(''class'', ''keep-me'')]) (Some [Text ''text2''])]))"
  by (simp add: preorder_removeNodes_node get_prop_def Let_def)

text \<open>
  The view that decides is the one before the child's own subtree is pruned: a child
  that is kept can satisfy the predicate once its children have been filtered. Here
  \<^verbatim>\<open>a\<close> has two children when it is tested, and the single text child \<^verbatim>\<open>t\<close> afterwards.
\<close>

lemma removeNodes_view_before_pruning:
  "removeNodes_node
     (\<lambda>v. v_name v = Some ''b'' \<or> (v_name v = Some ''a'' \<and> v_content v = Some ''t''))
     (Element ''div'' (Some [])
        (Some [Element ''a'' (Some []) (Some [Text ''t'', Element ''b'' (Some []) (Some [])])]))
   = Element ''div'' (Some []) (Some [Element ''a'' (Some []) (Some [Text ''t''])])"
  by simp

section \<open>Resource extraction\<close>

lemma collect_append: "collect n rs = rs @ node_resources n"
  by (cases "(n, rs)" rule: collect.cases)
     (auto simp: RESOURCE_ATTRS_def get_prop_def split: option.splits)

lemma fold_collect: "fold collect ns rs = rs @ concat (map node_resources ns)"
  by (induction ns arbitrary: rs) (auto simp: collect_append)

lemma resources_falsy: "falsy n \<Longrightarrow> node_resources n = []"
  by (cases n) auto

lemma concat_resources_filter:
  "concat (map node_resources (filter (\<lambda>n. \<not> falsy n) ns)) = concat (map node_resources ns)"
  by (induction ns) (auto simp: resources_falsy)

text \<open>
  C9. For every tree, \<^verbatim>\<open>extractAllResources\<close> returns the records of the nodes in
  depth-first pre-order, and within a node in the order src, href, data, action: one
  record with the element's name, the key and the value for every element and every
  key of the four that the element holds with a non-empty value, several keys of one
  element giving several records. The second part is the example of the specification
  with a \<^verbatim>\<open>form\<close> that has three of the keys, one of them empty.
\<close>

theorem extractAllResources_preorder:
  "extractAllResources a = concat (map node_resources (preorder_arg a))
   \<and> extractAllResources (One (Element ''html'' (Some []) (Some
        [Element ''link'' (Some [(''rel'', ''stylesheet''), (''href'', ''/a.css'')]) (Some []),
         Element ''img'' (Some [(''src'', ''/b.jpg'')]) (Some []),
         Element ''form'' (Some [(''action'', ''/go''), (''data'', ''''), (''src'', ''/s'')])
           (Some [Element ''a'' (Some [(''href'', ''/c.html'')]) (Some [Text ''Link''])]),
         Element ''script'' (Some [(''src'', ''/d.js'')]) (Some [])])))
     = [\<lparr>r_name = ''link'', r_attribute = ''href'', r_value = ''/a.css''\<rparr>,
        \<lparr>r_name = ''img'', r_attribute = ''src'', r_value = ''/b.jpg''\<rparr>,
        \<lparr>r_name = ''form'', r_attribute = ''src'', r_value = ''/s''\<rparr>,
        \<lparr>r_name = ''form'', r_attribute = ''action'', r_value = ''/go''\<rparr>,
        \<lparr>r_name = ''a'', r_attribute = ''href'', r_value = ''/c.html''\<rparr>,
        \<lparr>r_name = ''script'', r_attribute = ''src'', r_value = ''/d.js''\<rparr>]"
proof -
  have general: "extractAllResources a = concat (map node_resources (preorder_arg a))" for a
    by (simp add: extractAllResources_def traverse_fold fold_collect concat_resources_filter)
  show ?thesis
    by (rule conjI, rule general, subst general) (simp add: get_prop_def)
qed

section \<open>The head of a document\<close>

lemma findIndex_None: "(findIndex P xs = None) = (\<not> list_ex P xs)"
  by (induction xs) auto

lemma findIndex_first:
  "\<not> list_ex P pre \<Longrightarrow> P x \<Longrightarrow> findIndex P (pre @ x # post) = Some (length pre)"
  by (induction pre) auto

lemma findIndex_Some:
  "findIndex P xs = Some i \<Longrightarrow> i < length xs \<and> P (xs ! i) \<and> \<not> list_ex P (take i xs)"
proof (induction xs arbitrary: i)
  case Nil
  then show ?case by simp
next
  case (Cons x xs)
  then show ?case by (cases i) (auto split: if_splits)
qed

text \<open>
  The three ways in which an operation reaches the head of a root that has a children
  array: the first child named \<^verbatim>\<open>head\<close> is there; there is none and a new head goes right
  before the first child named \<^verbatim>\<open>body\<close>; there is neither and the new head goes to the
  front.
\<close>

lemma head_found:
  assumes "\<not> list_ex (named ''head'') pre"
  shows "changeHeadChildren f
           (ensureHeadNode
              (Element name attribs (Some (pre @ Element ''head'' ha (Some hcs) # post))))
         = Inr (Element name attribs (Some (pre @ Element ''head'' ha (Some (f hcs)) # post)))"
  using assms by (simp add: findIndex_first nth_append)

lemma head_before_body:
  assumes "\<not> list_ex (named ''head'') (pre @ b # post)"
    and "named ''body'' b"
    and "\<not> list_ex (named ''body'') pre"
  shows "changeHeadChildren f (ensureHeadNode (Element name attribs (Some (pre @ b # post))))
         = Inr (Element name attribs
             (Some (pre @ Element ''head'' (Some []) (Some (f [])) # b # post)))"
proof -
  have "findIndex (named ''head'') (pre @ b # post) = None"
    using assms(1) by (simp add: findIndex_None)
  moreover have "findIndex (named ''body'') (pre @ b # post) = Some (length pre)"
    using assms(2,3) by (simp add: findIndex_first)
  ultimately show ?thesis
    by (simp add: headNode_def nth_append)
qed

lemma head_at_front:
  assumes "\<not> list_ex (named ''head'') cs"
    and "\<not> list_ex (named ''body'') cs"
  shows "changeHeadChildren f (ensureHeadNode (Element name attribs (Some cs)))
         = Inr (Element name attribs (Some (Element ''head'' (Some []) (Some (f [])) # cs)))"
proof -
  have "findIndex (named ''head'') cs = None" "findIndex (named ''body'') cs = None"
    using assms by (simp_all add: findIndex_None)
  then show ?thesis
    by (simp add: headNode_def)
qed

lemma list_ex_name_filter:
  "list_ex (named x) (filter (\<lambda>n. \<not> falsy n) ns) = list_ex (named x) ns"
proof (induction ns)
  case Nil
  then show ?case by simp
next
  case (Cons m ms)
  then show ?case by (cases m) auto
qed

lemma hasNode_node_name:
  "hasNode_node (\<lambda>d. v_name d = Some x) n = list_ex (named x) (preorder n)"
proof -
  have "v_name (getNodeProps m) = node_name m" for m
    by (cases m) auto
  then show ?thesis
    by (simp add: hasNode_node_visited list_ex_name_filter)
qed

section \<open>The title\<close>

lemma updateTitle_titles:
  "list_all (\<lambda>n. named ''title'' n \<longrightarrow> node_children n = Some [Text newTitle])
     (preorder (updateTitle_node newTitle root))"
proof (induction newTitle root rule: updateTitle_node.induct)
  case (1 newTitle s)
  then show ?case by simp
next
  case (2 newTitle name attribs children)
  then show ?case
    by (cases children) (auto simp: list_all_iff)
qed

lemma updateTitle_outside:
  "outside_titles (updateTitle_node newTitle root) = outside_titles root"
proof (induction newTitle root rule: updateTitle_node.induct)
  case (1 newTitle s)
  then show ?case by simp
next
  case (2 newTitle name attribs children)
  then show ?case
    by (cases children) auto
qed

text \<open>
  C7. If an element named \<^verbatim>\<open>title\<close> occurs anywhere in the tree, the root included,
  \<^verbatim>\<open>setTitle\<close> returns the tree in which the children of every \<^verbatim>\<open>title\<close> element are
  exactly the one string \<open>newTitle\<close>, whatever they were, and nothing outside the \<^verbatim>\<open>title\<close>
  elements has changed. If none occurs and the root is an element with a children
  array, the new node \<^verbatim>\<open>{name:'title', attribs:{}, children:[newTitle]}\<close> becomes the first
  child of the head: of the first child named \<^verbatim>\<open>head\<close> when there is one (its children
  array being present); otherwise of a new head that is put immediately before the first
  child named \<^verbatim>\<open>body\<close>, or at index 0 of the root's children when there is no body.
\<close>

theorem setTitle_cases:
  "(list_ex (named ''title'') (preorder root) \<longrightarrow>
      setTitle root newTitle = Inr (updateTitle_node newTitle root)
      \<and> list_all (\<lambda>n. named ''title'' n \<longrightarrow> node_children n = Some [Text newTitle])
           (preorder (updateTitle_node newTitle root))
      \<and> outside_titles (updateTitle_node newTitle root) = outside_titles root)
   \<and> (\<not> list_ex (named ''title'')
          (preorder (Element name attribs (Some (pre @ Element ''head'' ha (Some hcs) # post))))
       \<and> \<not> list_ex (named ''head'') pre \<longrightarrow>
      setTitle (Element name attribs (Some (pre @ Element ''head'' ha (Some hcs) # post))) newTitle
      = Inr (Element name attribs
          (Some (pre @ Element ''head'' ha
             (Some (Element ''title'' (Some []) (Some [Text newTitle]) # hcs)) # post))))
   \<and> (\<not> list_ex (named ''title'') (preorder (Element name attribs (Some (pre @ b # post))))
       \<and> \<not> list_ex (named ''head'') (pre @ b # post)
       \<and> named ''body'' b \<and> \<not> list_ex (named ''body'') pre \<longrightarrow>
      setTitle (Element name attribs (Some (pre @ b # post))) newTitle
      = Inr (Element name attribs
          (Some (pre @ Element ''head'' (Some [])
             (Some [Element ''title'' (Some []) (Some [Text newTitle])]) # b # post))))
   \<and> (\<not> list_ex (named ''title'') (preorder (Element name attribs (Some cs)))
       \<and> \<not> list_ex (named ''head'') cs \<and> \<not> list_ex (named ''body'') cs \<longrightarrow>
      setTitle (Element name attribs (Some cs)) newTitle
      = Inr (Element name attribs
          (Some (Element ''head'' (Some [])
             (Some [Element ''title'' (Some []) (Some [Text newTitle])]) # cs))))"
proof (intro conjI impI)
  assume "list_ex (named ''title'') (preorder root)"
  then show "setTitle root newTitle = Inr (updateTitle_node newTitle root)"
    by (simp add: setTitle_def hasNode_node_name)
next
  show "list_all (\<lambda>n. named ''title'' n \<longrightarrow> node_children n = Some [Text newTitle])
           (preorder (updateTitle_node newTitle root))"
    by (rule updateTitle_titles)
next
  show "outside_titles (updateTitle_node newTitle root) = outside_titles root"
    by (rule updateTitle_outside)
next
  let ?root = "Element name attribs (Some (pre @ Element ''head'' ha (Some hcs) # post))"
  assume a: "\<not> list_ex (named ''title'') (preorder ?root) \<and> \<not> list_ex (named ''head'') pre"
  then show "setTitle ?root newTitle
      = Inr (Element name attribs
          (Some (pre @ Element ''head'' ha
             (Some (Element ''title'' (Some []) (Some [Text newTitle]) # hcs)) # post)))"
    by (simp add: setTitle_def hasNode_node_name head_found
          del: preorder.simps ensureHeadNode.simps changeHeadChildren.simps)
next
  let ?root = "Element name attribs (Some (pre @ b # post))"
  assume a: "\<not> list_ex (named ''title'') (preorder ?root)
       \<and> \<not> list_ex (named ''head'') (pre @ b # post)
       \<and> named ''body'' b \<and> \<not> list_ex (named ''body'') pre"
  then show "setTitle ?root newTitle
      = Inr (Element name attribs
          (Some (pre @ Element ''head'' (Some [])
             (Some [Element ''title'' (Some []) (Some [Text newTitle])]) # b # post)))"
    by (simp add: setTitle_def hasNode_node_name head_before_body
          del: preorder.simps ensureHeadNode.simps changeHeadChildren.simps)
next
  let ?root = "Element name attribs (Some cs)"
  assume a: "\<not> list_ex (named ''title'') (preorder ?root)
       \<and> \<not> list_ex (named ''head'') cs \<and> \<not> list_ex (named ''body'') cs"
  then show "setTitle ?root newTitle
      = Inr (Element name attribs
          (Some (Element ''head'' (Some [])
             (Some [Element ''title'' (Some []) (Some [Text newTitle])]) # cs)))"
    by (simp add: setTitle_def hasNode_node_name head_at_front
          del: preorder.simps ensureHeadNode.simps changeHeadChildren.simps)
qed

text \<open>
  The four cases on trees like those of the tests: two titles, one of them with nested
  markup; a head without title; a body only; neither head nor body.
\<close>

theorem setTitle_cases_witness:
  "setTitle (Element ''html'' (Some [(''lang'', ''en'')])
       (Some [Element ''head'' (Some [])
                (Some [Element ''meta'' (Some [(''charset'', ''utf-8'')]) (Some []),
                       Element ''title'' (Some []) (Some [Text ''Test '', Element ''b'' None None])]),
              Element ''body'' (Some []) (Some [Element ''title'' None None])]))
     ''New Title''
   = Inr (Element ''html'' (Some [(''lang'', ''en'')])
       (Some [Element ''head'' (Some [])
                (Some [Element ''meta'' (Some [(''charset'', ''utf-8'')]) (Some []),
                       Element ''title'' (Some []) (Some [Text ''New Title''])]),
              Element ''body'' (Some []) (Some [Element ''title'' None (Some [Text ''New Title''])])]))
   \<and> setTitle (Element ''html'' (Some []) (Some [Text ''x'', Element ''head'' (Some []) (Some [Text ''y''])]))
        ''New Title''
     = Inr (Element ''html'' (Some [])
         (Some [Text ''x'', Element ''head'' (Some [])
                  (Some [Element ''title'' (Some []) (Some [Text ''New Title'']), Text ''y''])]))
   \<and> setTitle (Element ''html'' (Some []) (Some [Text ''x'', Element ''body'' (Some []) (Some [])]))
        ''New Title''
     = Inr (Element ''html'' (Some [])
         (Some [Text ''x'',
                Element ''head'' (Some [])
                  (Some [Element ''title'' (Some []) (Some [Text ''New Title''])]),
                Element ''body'' (Some []) (Some [])]))
   \<and> setTitle (Element ''html'' (Some []) (Some [Text ''x''])) ''New Title''
     = Inr (Element ''html'' (Some [])
         (Some [Element ''head'' (Some [])
                  (Some [Element ''title'' (Some []) (Some [Text ''New Title''])]),
                Text ''x'']))"
  using setTitle_cases[where root = "Element ''html'' (Some [(''lang'', ''en'')])
       (Some [Element ''head'' (Some [])
                (Some [Element ''meta'' (Some [(''charset'', ''utf-8'')]) (Some []),
                       Element ''title'' (Some []) (Some [Text ''Test '', Element ''b'' None None])]),
              Element ''body'' (Some []) (Some [Element ''title'' None None])])"
      and newTitle = "''New Title''" and name = "''html''" and attribs = "Some []"
      and pre = "[Text ''x'']" and ha = "Some []" and hcs = "[Text ''y'']" and post = "[]"
      and b = "Element ''body'' (Some []) (Some [])" and cs = "[Text ''x'']"]
  by simp

section \<open>Character set and viewport\<close>

lemma startsWith_iff: "startsWith s sub = (\<exists>post. s = sub @ post)"
  by (induction s sub rule: startsWith.induct) auto

lemma includes_str_iff: "includes_str s sub = (\<exists>pre post. s = pre @ sub @ post)"
proof (induction s)
  case Nil
  then show ?case by (auto simp: startsWith_iff)
next
  case (Cons x xs)
  show ?case
  proof
    assume "includes_str (x # xs) sub"
    then consider "startsWith (x # xs) sub" | "includes_str xs sub" by auto
    then show "\<exists>pre post. x # xs = pre @ sub @ post"
    proof cases
      case 1
      then obtain post where "x # xs = sub @ post" by (auto simp: startsWith_iff)
      then have "x # xs = [] @ sub @ post" by simp
      then show ?thesis by blast
    next
      case 2
      then obtain pre post where "xs = pre @ sub @ post" using Cons by auto
      then have "x # xs = (x # pre) @ sub @ post" by simp
      then show ?thesis by blast
    qed
  next
    assume "\<exists>pre post. x # xs = pre @ sub @ post"
    then obtain pre post where eq: "x # xs = pre @ sub @ post" by auto
    show "includes_str (x # xs) sub"
    proof (cases pre)
      case Nil
      then have "startsWith (x # xs) sub" using eq by (auto simp: startsWith_iff)
      then show ?thesis by simp
    next
      case (Cons y ys)
      then have "xs = ys @ sub @ post" using eq by simp
      then have "includes_str xs sub" using Cons.IH by auto
      then show ?thesis by simp
    qed
  qed
qed

lemma signalsCharset_view: "signalsCharset (getNodeProps n) = charset_meta n"
  by (cases n) (auto simp: signalsCharset_def get_prop_def split: option.splits)

lemma isViewport_view: "isViewport (getNodeProps n) = viewport_meta n"
  by (cases n) (auto simp: isViewport_def)

lemma list_ex_filter_falsy:
  assumes "\<And>n. falsy n \<Longrightarrow> \<not> P n"
  shows "list_ex P (filter (\<lambda>n. \<not> falsy n) ns) = list_ex P ns"
  using assms by (induction ns) auto

lemma hasCharset_iff: "hasNode_node signalsCharset root = list_ex charset_meta (preorder root)"
proof -
  have "falsy n \<Longrightarrow> \<not> charset_meta n" for n by (cases n) auto
  then show ?thesis
    by (simp add: hasNode_node_visited signalsCharset_view list_ex_filter_falsy)
qed

lemma hasViewport_iff: "hasNode_node isViewport root = list_ex viewport_meta (preorder root)"
proof -
  have "falsy n \<Longrightarrow> \<not> viewport_meta n" for n by (cases n) auto
  then show ?thesis
    by (simp add: hasNode_node_visited isViewport_view list_ex_filter_falsy)
qed

lemma ensureHeadNode_None: "snd (ensureHeadNode root) = None \<Longrightarrow> fst (ensureHeadNode root) = root"
  by (cases root rule: ensureHeadNode.cases) (auto split: option.splits simp: Let_def)

lemma changeHead_result:
  assumes "changeHeadChildren f (ensureHeadNode root) = Inr r"
  shows "(snd (ensureHeadNode root) = None \<and> r = root)
    \<or> (\<exists>name attribs cs i hn ha hcs.
          fst (ensureHeadNode root) = Element name attribs (Some cs) \<and> i < length cs
          \<and> cs ! i = Element hn ha (Some hcs)
          \<and> r = Element name attribs (Some (cs[i := Element hn ha (Some (f hcs))])))"
proof (cases "snd (ensureHeadNode root)")
  case None
  then have "ensureHeadNode root = (root, None)"
    using ensureHeadNode_None[of root] by (metis prod.collapse)
  then show ?thesis using assms by simp
next
  case (Some i)
  then have e: "ensureHeadNode root = (fst (ensureHeadNode root), Some i)"
    by (metis prod.collapse)
  show ?thesis
    using assms
    apply (subst (asm) e)
    apply (cases "fst (ensureHeadNode root)")
     apply simp
    subgoal for name attribs children
      apply (cases children)
       apply simp
      apply (auto split: if_splits node.splits option.splits)
      done
    done
qed

lemma self_in_preorder: "n \<in> set (preorder n)"
  by (cases n) auto

lemma child_in_preorder: "x \<in> set cs \<Longrightarrow> x \<in> set (preorder (Element name attribs (Some cs)))"
  using self_in_preorder by auto

lemma grandchild_in_preorder:
  assumes "i < length cs" "x \<in> set hcs"
  shows "x \<in> set (preorder (Element name attribs (Some (cs[i := Element hn ha (Some hcs)]))))"
proof -
  let ?h = "Element hn ha (Some hcs)"
  have "?h \<in> set (cs[i := ?h])" using assms(1) by (simp add: set_update_memI)
  moreover have "x \<in> set (preorder ?h)" using assms(2) by (rule child_in_preorder)
  ultimately have "x \<in> set (concat (map preorder (cs[i := ?h])))"
    by (auto simp del: preorder.simps)
  then show ?thesis by simp
qed

lemma hasNode_node_mem:
  "x \<in> set (preorder r) \<Longrightarrow> \<not> falsy x \<Longrightarrow> p (getNodeProps x) \<Longrightarrow> hasNode_node p r"
  by (auto simp: hasNode_node_visited list_ex_iff)

lemma changeHead_then_has:
  assumes "changeHeadChildren f (ensureHeadNode root) = Inr r"
    and "\<And>hcs. x \<in> set (f hcs)" and "\<not> falsy x" and "p (getNodeProps x)"
  shows "ensureHeadNode root = (r, None) \<or> hasNode_node p r"
  using changeHead_result[OF assms(1)]
proof
  assume "snd (ensureHeadNode root) = None \<and> r = root"
  then have "ensureHeadNode root = (r, None)"
    using ensureHeadNode_None[of root] by (metis prod.collapse)
  then show ?thesis by simp
next
  assume "\<exists>name attribs cs i hn ha hcs.
          fst (ensureHeadNode root) = Element name attribs (Some cs) \<and> i < length cs
          \<and> cs ! i = Element hn ha (Some hcs)
          \<and> r = Element name attribs (Some (cs[i := Element hn ha (Some (f hcs))]))"
  then obtain name attribs cs i hn ha hcs where
    i: "i < length cs"
    and r: "r = Element name attribs (Some (cs[i := Element hn ha (Some (f hcs))]))"
    by blast
  have "x \<in> set (preorder (Element name attribs (Some (cs[i := Element hn ha (Some (f hcs))]))))"
    using i assms(2) by (rule grandchild_in_preorder)
  then have "x \<in> set (preorder r)"
    by (simp only: r)
  then show ?thesis using assms(3,4) hasNode_node_mem by blast
qed

lemma setCharset_twice:
  assumes "charset_opt \<noteq> Some []" and "setCharset root charset_opt = Inr r"
  shows "setCharset r charset_opt' = Inr r"
proof (cases "hasNode_node signalsCharset root")
  case True
  then show ?thesis using assms by (simp add: setCharset_def)
next
  case False
  let ?c = "case charset_opt of None \<Rightarrow> ''utf-8'' | Some c \<Rightarrow> c"
  let ?m = "Element ''meta'' (Some [(''charset'', ?c)]) (Some [])"
  have c: "?c \<noteq> []" using assms(1) by (cases charset_opt) auto
  have step: "changeHeadChildren (\<lambda>cs. ?m # cs) (ensureHeadNode root) = Inr r"
    using assms(2) False by (simp add: setCharset_def)
  have "charset_meta ?m"
    using c by (simp add: get_prop_def)
  then have "signalsCharset (getNodeProps ?m)"
    by (simp only: signalsCharset_view)
  then have "ensureHeadNode root = (r, None) \<or> hasNode_node signalsCharset r"
    using changeHead_then_has[OF step, of ?m signalsCharset] by simp
  then show ?thesis
  proof
    assume "hasNode_node signalsCharset r"
    then show ?thesis by (simp add: setCharset_def)
  next
    assume e: "ensureHeadNode root = (r, None)"
    then have "r = root" using ensureHeadNode_None[of root] by simp
    then show ?thesis using False e by (simp add: setCharset_def)
  qed
qed

lemma setViewport_twice:
  assumes "setViewport root content_opt = Inr r"
  shows "setViewport r content_opt' = Inr r"
proof (cases "hasNode_node isViewport root")
  case True
  then show ?thesis using assms by (simp add: setViewport_def)
next
  case False
  let ?c = "case content_opt of None \<Rightarrow> ''width=device-width, initial-scale=1.0'' | Some c \<Rightarrow> c"
  let ?m = "Element ''meta'' (Some [(''name'', ''viewport''), (''content'', ?c)]) (Some [])"
  have step: "changeHeadChildren (\<lambda>cs. cs @ [?m]) (ensureHeadNode root) = Inr r"
    using assms False by (simp add: setViewport_def)
  have "viewport_meta ?m"
    by (simp add: get_prop_def)
  then have "isViewport (getNodeProps ?m)"
    by (simp only: isViewport_view)
  then have "ensureHeadNode root = (r, None) \<or> hasNode_node isViewport r"
    using changeHead_then_has[OF step, of ?m isViewport] by simp
  then show ?thesis
  proof
    assume "hasNode_node isViewport r"
    then show ?thesis by (simp add: setViewport_def)
  next
    assume e: "ensureHeadNode root = (r, None)"
    then have "r = root" using ensureHeadNode_None[of root] by simp
    then show ?thesis using False e by (simp add: setViewport_def)
  qed
qed


lemma metas_Element:
  "metas (Element name attribs (Some cs)) =
     (if name = ''meta'' then 1 else 0) + sum_list (map metas cs)"
proof -
  have "length (filter (named ''meta'') (concat (map preorder cs))) = sum_list (map metas cs)"
    by (induction cs) (auto simp: metas_def)
  then show ?thesis by (simp add: metas_def)
qed

lemma ensureHead_metas: "metas (fst (ensureHeadNode root)) = metas root"
proof (cases root rule: ensureHeadNode.cases)
  case (1 s)
  then show ?thesis by simp
next
  case (2 name attribs)
  then show ?thesis by simp
next
  case (3 name attribs cs)
  have "sum_list (map metas (take k cs @ headNode # drop k cs)) = sum_list (map metas cs)" for k
  proof -
    have "sum_list (map metas (take k cs)) + sum_list (map metas (drop k cs)) =
          sum_list (map metas cs)"
      by (metis append_take_drop_id map_append sum_list_append)
    then show ?thesis
      by (simp add: metas_def headNode_def)
  qed
  then show ?thesis using 3
    by (simp add: metas_Element Let_def split: option.splits)
qed

lemma changeHead_metas:
  assumes "changeHeadChildren f (ensureHeadNode root) = Inr r"
    and "\<And>hcs. f hcs = x # hcs \<or> f hcs = hcs @ [x]"
  shows "metas r \<le> metas root + metas x"
  using changeHead_result[OF assms(1)]
proof
  assume "snd (ensureHeadNode root) = None \<and> r = root"
  then show ?thesis by simp
next
  assume "\<exists>name attribs cs i hn ha hcs.
          fst (ensureHeadNode root) = Element name attribs (Some cs) \<and> i < length cs
          \<and> cs ! i = Element hn ha (Some hcs)
          \<and> r = Element name attribs (Some (cs[i := Element hn ha (Some (f hcs))]))"
  then obtain name attribs cs i hn ha hcs where
    e: "fst (ensureHeadNode root) = Element name attribs (Some cs)"
    and i: "i < length cs" and h: "cs ! i = Element hn ha (Some hcs)"
    and r: "r = Element name attribs (Some (cs[i := Element hn ha (Some (f hcs))]))"
    by blast
  have "sum_list (map metas (f hcs)) = sum_list (map metas hcs) + metas x"
    using assms(2)[of hcs] by auto
  then have h': "metas (Element hn ha (Some (f hcs))) = metas (cs ! i) + metas x"
    by (simp add: h metas_Element)
  have "sum_list ((map metas cs)[i := metas (Element hn ha (Some (f hcs)))]) =
        sum_list (map metas cs) + metas (Element hn ha (Some (f hcs))) - map metas cs ! i"
    using i by (simp add: sum_list_update)
  then have "sum_list (map metas (cs[i := Element hn ha (Some (f hcs))])) =
        sum_list (map metas cs) + metas x"
    using i h' by (simp add: map_update)
  then have "metas r = metas (fst (ensureHeadNode root)) + metas x"
    by (simp add: r e metas_Element)
  then show ?thesis by (simp add: ensureHead_metas)
qed

lemma changeHead_canonical:
  assumes "canonical root"
  shows "\<exists>r. changeHeadChildren f (ensureHeadNode root) = Inr r"
proof (cases root rule: ensureHeadNode.cases)
  case (1 s)
  then show ?thesis by simp
next
  case (2 name attribs)
  then show ?thesis by simp
next
  case (3 name attribs cs)
  show ?thesis
  proof (cases "findIndex (named ''head'') cs")
    case None
    have "k \<le> length cs \<Longrightarrow> (take k cs @ headNode # drop k cs) ! k = headNode" for k
      by (simp add: nth_append)
    moreover have "findIndex (named ''body'') cs = Some b \<Longrightarrow> b \<le> length cs" for b
      using findIndex_Some[of "named ''body''" cs b] by simp
    ultimately show ?thesis using 3 None
      by (auto simp: Let_def headNode_def split: option.splits)
  next
    case (Some i)
    then have i: "i < length cs" and n: "named ''head'' (cs ! i)"
      using findIndex_Some[of "named ''head''" cs i] by auto
    have "canonical (cs ! i)"
      using assms 3 i by (simp add: list_all_length)
    with n obtain ha hcs where "cs ! i = Element ''head'' ha (Some hcs)"
      by (cases "cs ! i" rule: canonical.cases) auto
    then show ?thesis using 3 Some i by simp
  qed
qed

text \<open>
  C8, as stated, fails. \<^verbatim>\<open>setCharset\<close> tests \<^verbatim>\<open>attribs?.charset\<close> for truth, and the empty
  string is falsy. A tree whose only meta element has the attribute \<^verbatim>\<open>charset\<close> with the
  empty value (what \<^verbatim>\<open><meta charset>\<close> parses to) has the attribute present, and
  \<^verbatim>\<open>setCharset\<close> still adds a second meta element. For the same reason two calls with the
  empty string as character set add two meta elements.
\<close>

theorem setCharset_empty_attribute:
  "list_ex (\<lambda>n. named ''meta'' n \<and> get_prop (node_attribs n) ''charset'' = Some [])
     (preorder (Element ''html'' (Some [])
        (Some [Element ''head'' (Some [])
                 (Some [Element ''meta'' (Some [(''charset'', [])]) (Some [])])])))
   \<and> setCharset (Element ''html'' (Some [])
        (Some [Element ''head'' (Some [])
                 (Some [Element ''meta'' (Some [(''charset'', [])]) (Some [])])])) None
     = Inr (Element ''html'' (Some [])
        (Some [Element ''head'' (Some [])
                 (Some [Element ''meta'' (Some [(''charset'', ''utf-8'')]) (Some []),
                        Element ''meta'' (Some [(''charset'', [])]) (Some [])])]))
   \<and> setCharset (Element ''html'' (Some []) (Some [Element ''head'' (Some []) (Some [])]))
        (Some [])
     = Inr (Element ''html'' (Some [])
        (Some [Element ''head'' (Some [])
                 (Some [Element ''meta'' (Some [(''charset'', [])]) (Some [])])]))
   \<and> setCharset (Element ''html'' (Some [])
        (Some [Element ''head'' (Some [])
                 (Some [Element ''meta'' (Some [(''charset'', [])]) (Some [])])])) (Some [])
     = Inr (Element ''html'' (Some [])
        (Some [Element ''head'' (Some [])
                 (Some [Element ''meta'' (Some [(''charset'', [])]) (Some []),
                        Element ''meta'' (Some [(''charset'', [])]) (Some [])])]))"
  by (simp add: setCharset_def signalsCharset_def get_prop_def headNode_def)

text \<open>
  C8, amended. \<^verbatim>\<open>setCharset\<close> returns the tree unchanged when some meta element of it has a
  \<^verbatim>\<open>charset\<close> attribute with a non-empty value, or \<^verbatim>\<open>http-equiv\<close> equal to \<^verbatim>\<open>content-type\<close>
  up to case with a \<^verbatim>\<open>content\<close> containing \<^verbatim>\<open>charset\<close> up to case, or \<^verbatim>\<open>name\<close> equal to
  \<^verbatim>\<open>charset\<close> up to case; otherwise, on a root with a children array, it puts
  \<^verbatim>\<open>{name:'meta', attribs:{charset}, children:[]}\<close> in front of the children of the head
  (the first child named \<^verbatim>\<open>head\<close>, or a new head before the first body, or at index 0).
  \<^verbatim>\<open>setViewport\<close> returns the tree unchanged when some meta element has \<^verbatim>\<open>name\<close> exactly
  \<^verbatim>\<open>viewport\<close>, and otherwise puts the viewport meta element behind the children of the
  head. Both return on every canonical tree. A second \<^verbatim>\<open>setViewport\<close>, and a second
  \<^verbatim>\<open>setCharset\<close> after a first one whose character set was not the empty string, returns
  the tree of the first call, which has at most one meta element more than the tree
  before it.
\<close>

theorem setCharset_setViewport:
  "(let charsetNode = Element ''meta''
        (Some [(''charset'', case charset_opt of None \<Rightarrow> ''utf-8'' | Some c \<Rightarrow> c)]) (Some [])
    in (list_ex charset_meta (preorder root) \<longrightarrow> setCharset root charset_opt = Inr root)
     \<and> (\<not> list_ex charset_meta
            (preorder (Element name attribs (Some (pre @ Element ''head'' ha (Some hcs) # post))))
         \<and> \<not> list_ex (named ''head'') pre \<longrightarrow>
        setCharset (Element name attribs (Some (pre @ Element ''head'' ha (Some hcs) # post)))
          charset_opt
        = Inr (Element name attribs
            (Some (pre @ Element ''head'' ha (Some (charsetNode # hcs)) # post))))
     \<and> (\<not> list_ex charset_meta (preorder (Element name attribs (Some (pre @ b # post))))
         \<and> \<not> list_ex (named ''head'') (pre @ b # post)
         \<and> named ''body'' b \<and> \<not> list_ex (named ''body'') pre \<longrightarrow>
        setCharset (Element name attribs (Some (pre @ b # post))) charset_opt
        = Inr (Element name attribs
            (Some (pre @ Element ''head'' (Some []) (Some [charsetNode]) # b # post))))
     \<and> (\<not> list_ex charset_meta (preorder (Element name attribs (Some cs)))
         \<and> \<not> list_ex (named ''head'') cs \<and> \<not> list_ex (named ''body'') cs \<longrightarrow>
        setCharset (Element name attribs (Some cs)) charset_opt
        = Inr (Element name attribs
            (Some (Element ''head'' (Some []) (Some [charsetNode]) # cs))))
     \<and> (canonical root \<longrightarrow> (\<exists>r'. setCharset root charset_opt = Inr r'))
     \<and> (charset_opt \<noteq> Some [] \<and> setCharset root charset_opt = Inr r \<longrightarrow>
        setCharset r charset_opt' = Inr r \<and> metas r \<le> metas root + 1))
   \<and> (let viewportNode = Element ''meta''
        (Some [(''name'', ''viewport''),
               (''content'', case content_opt of
                               None \<Rightarrow> ''width=device-width, initial-scale=1.0''
                             | Some c \<Rightarrow> c)]) (Some [])
    in (list_ex viewport_meta (preorder root) \<longrightarrow> setViewport root content_opt = Inr root)
     \<and> (\<not> list_ex viewport_meta
            (preorder (Element name attribs (Some (pre @ Element ''head'' ha (Some hcs) # post))))
         \<and> \<not> list_ex (named ''head'') pre \<longrightarrow>
        setViewport (Element name attribs (Some (pre @ Element ''head'' ha (Some hcs) # post)))
          content_opt
        = Inr (Element name attribs
            (Some (pre @ Element ''head'' ha (Some (hcs @ [viewportNode])) # post))))
     \<and> (\<not> list_ex viewport_meta (preorder (Element name attribs (Some (pre @ b # post))))
         \<and> \<not> list_ex (named ''head'') (pre @ b # post)
         \<and> named ''body'' b \<and> \<not> list_ex (named ''body'') pre \<longrightarrow>
        setViewport (Element name attribs (Some (pre @ b # post))) content_opt
        = Inr (Element name attribs
            (Some (pre @ Element ''head'' (Some []) (Some [viewportNode]) # b # post))))
     \<and> (\<not> list_ex viewport_meta (preorder (Element name attribs (Some cs)))
         \<and> \<not> list_ex (named ''head'') cs \<and> \<not> list_ex (named ''body'') cs \<longrightarrow>
        setViewport (Element name attribs (Some cs)) content_opt
        = Inr (Element name attribs
            (Some (Element ''head'' (Some []) (Some [viewportNode]) # cs))))
     \<and> (canonical root \<longrightarrow> (\<exists>r'. setViewport root content_opt = Inr r'))
     \<and> (setViewport root content_opt = Inr r \<longrightarrow>
        setViewport r content_opt' = Inr r \<and> metas r \<le> metas root + 1))"
proof -
  let ?cn = "Element ''meta''
        (Some [(''charset'', case charset_opt of None \<Rightarrow> ''utf-8'' | Some c \<Rightarrow> c)]) (Some [])"
  let ?vn = "Element ''meta''
        (Some [(''name'', ''viewport''),
               (''content'', case content_opt of
                               None \<Rightarrow> ''width=device-width, initial-scale=1.0''
                             | Some c \<Rightarrow> c)]) (Some [])"
  note off = preorder.simps ensureHeadNode.simps changeHeadChildren.simps hasNode_node.simps
  have c1: "list_ex charset_meta (preorder root) \<longrightarrow> setCharset root charset_opt = Inr root"
    by (simp add: setCharset_def hasCharset_iff)
  have c2: "\<not> list_ex charset_meta
            (preorder (Element name attribs (Some (pre @ Element ''head'' ha (Some hcs) # post))))
         \<and> \<not> list_ex (named ''head'') pre \<longrightarrow>
        setCharset (Element name attribs (Some (pre @ Element ''head'' ha (Some hcs) # post)))
          charset_opt
        = Inr (Element name attribs
            (Some (pre @ Element ''head'' ha (Some (?cn # hcs)) # post)))"
    by (simp add: setCharset_def hasCharset_iff head_found del: off)
  have c3: "\<not> list_ex charset_meta (preorder (Element name attribs (Some (pre @ b # post))))
         \<and> \<not> list_ex (named ''head'') (pre @ b # post)
         \<and> named ''body'' b \<and> \<not> list_ex (named ''body'') pre \<longrightarrow>
        setCharset (Element name attribs (Some (pre @ b # post))) charset_opt
        = Inr (Element name attribs
            (Some (pre @ Element ''head'' (Some []) (Some [?cn]) # b # post)))"
    by (simp add: setCharset_def hasCharset_iff head_before_body del: off)
  have c4: "\<not> list_ex charset_meta (preorder (Element name attribs (Some cs)))
         \<and> \<not> list_ex (named ''head'') cs \<and> \<not> list_ex (named ''body'') cs \<longrightarrow>
        setCharset (Element name attribs (Some cs)) charset_opt
        = Inr (Element name attribs
            (Some (Element ''head'' (Some []) (Some [?cn]) # cs)))"
    by (simp add: setCharset_def hasCharset_iff head_at_front del: off)
  have c5: "canonical root \<longrightarrow> (\<exists>r'. setCharset root charset_opt = Inr r')"
    using changeHead_canonical[of root] by (simp add: setCharset_def Let_def)
  have c6: "charset_opt \<noteq> Some [] \<and> setCharset root charset_opt = Inr r \<longrightarrow>
        setCharset r charset_opt' = Inr r \<and> metas r \<le> metas root + 1"
  proof (intro impI conjI)
    assume a: "charset_opt \<noteq> Some [] \<and> setCharset root charset_opt = Inr r"
    then show "setCharset r charset_opt' = Inr r"
      using setCharset_twice by blast
    show "metas r \<le> metas root + 1"
    proof (cases "hasNode_node signalsCharset root")
      case True
      then show ?thesis using a by (simp add: setCharset_def)
    next
      case False
      then have "changeHeadChildren (\<lambda>cs. ?cn # cs) (ensureHeadNode root) = Inr r"
        using a by (simp add: setCharset_def)
      then have "metas r \<le> metas root + metas ?cn"
        by (rule changeHead_metas) simp
      then show ?thesis by (simp add: metas_def)
    qed
  qed
  have v1: "list_ex viewport_meta (preorder root) \<longrightarrow> setViewport root content_opt = Inr root"
    by (simp add: setViewport_def hasViewport_iff)
  have v2: "\<not> list_ex viewport_meta
            (preorder (Element name attribs (Some (pre @ Element ''head'' ha (Some hcs) # post))))
         \<and> \<not> list_ex (named ''head'') pre \<longrightarrow>
        setViewport (Element name attribs (Some (pre @ Element ''head'' ha (Some hcs) # post)))
          content_opt
        = Inr (Element name attribs
            (Some (pre @ Element ''head'' ha (Some (hcs @ [?vn])) # post)))"
    by (simp add: setViewport_def hasViewport_iff head_found del: off)
  have v3: "\<not> list_ex viewport_meta (preorder (Element name attribs (Some (pre @ b # post))))
         \<and> \<not> list_ex (named ''head'') (pre @ b # post)
         \<and> named ''body'' b \<and> \<not> list_ex (named ''body'') pre \<longrightarrow>
        setViewport (Element name attribs (Some (pre @ b # post))) content_opt
        = Inr (Element name attribs
            (Some (pre @ Element ''head'' (Some []) (Some [?vn]) # b # post)))"
    by (simp add: setViewport_def hasViewport_iff head_before_body del: off)
  have v4: "\<not> list_ex viewport_meta (preorder (Element name attribs (Some cs)))
         \<and> \<not> list_ex (named ''head'') cs \<and> \<not> list_ex (named ''body'') cs \<longrightarrow>
        setViewport (Element name attribs (Some cs)) content_opt
        = Inr (Element name attribs
            (Some (Element ''head'' (Some []) (Some [?vn]) # cs)))"
    by (simp add: setViewport_def hasViewport_iff head_at_front del: off)
  have v5: "canonical root \<longrightarrow> (\<exists>r'. setViewport root content_opt = Inr r')"
    using changeHead_canonical[of root] by (simp add: setViewport_def Let_def)
  have v6: "setViewport root content_opt = Inr r \<longrightarrow>
        setViewport r content_opt' = Inr r \<and> metas r \<le> metas root + 1"
  proof (intro impI conjI)
    assume a: "setViewport root content_opt = Inr r"
    then show "setViewport r content_opt' = Inr r"
      using setViewport_twice by blast
    show "metas r \<le> metas root + 1"
    proof (cases "hasNode_node isViewport root")
      case True
      then show ?thesis using a by (simp add: setViewport_def)
    next
      case False
      then have "changeHeadChildren (\<lambda>cs. cs @ [?vn]) (ensureHeadNode root) = Inr r"
        using a by (simp add: setViewport_def)
      then have "metas r \<le> metas root + metas ?vn"
        by (rule changeHead_metas) simp
      then show ?thesis by (simp add: metas_def)
    qed
  qed
  show ?thesis
    unfolding Let_def
    using c1 c2 c3 c4 c5 c6 v1 v2 v3 v4 v5 v6 by blast
qed

text \<open>
  The cases on small trees: a meta element with \<^verbatim>\<open>http-equiv\<close> in capitals, resp. a viewport
  meta element, is left alone; a head, a body only, neither; a second call after an
  insertion.
\<close>

theorem setCharset_setViewport_witness:
  "setCharset (Element ''html'' (Some [])
       (Some [Element ''head'' (Some [])
                (Some [Element ''meta''
                         (Some [(''http-equiv'', ''Content-Type''),
                                (''content'', ''text/html; CHARSET=utf-8'')]) (Some [])])])) None
   = Inr (Element ''html'' (Some [])
       (Some [Element ''head'' (Some [])
                (Some [Element ''meta''
                         (Some [(''http-equiv'', ''Content-Type''),
                                (''content'', ''text/html; CHARSET=utf-8'')]) (Some [])])]))
   \<and> setCharset (Element ''html'' (Some [])
         (Some [Text ''x'', Element ''head'' (Some []) (Some [Text ''y''])])) (Some ''gb2312'')
     = Inr (Element ''html'' (Some [])
         (Some [Text ''x'', Element ''head'' (Some [])
                  (Some [Element ''meta'' (Some [(''charset'', ''gb2312'')]) (Some []),
                         Text ''y''])]))
   \<and> setCharset (Element ''html'' (Some [])
         (Some [Text ''x'', Element ''body'' (Some []) (Some [])])) (Some ''gb2312'')
     = Inr (Element ''html'' (Some [])
         (Some [Text ''x'',
                Element ''head'' (Some [])
                  (Some [Element ''meta'' (Some [(''charset'', ''gb2312'')]) (Some [])]),
                Element ''body'' (Some []) (Some [])]))
   \<and> setCharset (Element ''html'' (Some []) (Some [Text ''x''])) (Some ''gb2312'')
     = Inr (Element ''html'' (Some [])
         (Some [Element ''head'' (Some [])
                  (Some [Element ''meta'' (Some [(''charset'', ''gb2312'')]) (Some [])]),
                Text ''x'']))
   \<and> setCharset (Element ''html'' (Some [])
         (Some [Element ''head'' (Some [])
                  (Some [Element ''meta'' (Some [(''charset'', ''gb2312'')]) (Some [])]),
                Text ''x''])) None
     = Inr (Element ''html'' (Some [])
         (Some [Element ''head'' (Some [])
                  (Some [Element ''meta'' (Some [(''charset'', ''gb2312'')]) (Some [])]),
                Text ''x'']))
   \<and> setViewport (Element ''html'' (Some [])
         (Some [Element ''head'' (Some [])
                  (Some [Element ''meta''
                           (Some [(''name'', ''viewport''), (''content'', ''width=320'')])
                           (Some [])])])) None
     = Inr (Element ''html'' (Some [])
         (Some [Element ''head'' (Some [])
                  (Some [Element ''meta''
                           (Some [(''name'', ''viewport''), (''content'', ''width=320'')])
                           (Some [])])]))
   \<and> setViewport (Element ''html'' (Some [])
         (Some [Text ''x'', Element ''head'' (Some []) (Some [Text ''y''])])) (Some ''width=320'')
     = Inr (Element ''html'' (Some [])
         (Some [Text ''x'', Element ''head'' (Some [])
                  (Some [Text ''y'',
                         Element ''meta''
                           (Some [(''name'', ''viewport''), (''content'', ''width=320'')])
                           (Some [])])]))
   \<and> setViewport (Element ''html'' (Some [])
         (Some [Text ''x'', Element ''body'' (Some []) (Some [])])) (Some ''width=320'')
     = Inr (Element ''html'' (Some [])
         (Some [Text ''x'',
                Element ''head'' (Some [])
                  (Some [Element ''meta''
                           (Some [(''name'', ''viewport''), (''content'', ''width=320'')])
                           (Some [])]),
                Element ''body'' (Some []) (Some [])]))
   \<and> setViewport (Element ''html'' (Some []) (Some [Text ''x''])) (Some ''width=320'')
     = Inr (Element ''html'' (Some [])
         (Some [Element ''head'' (Some [])
                  (Some [Element ''meta''
                           (Some [(''name'', ''viewport''), (''content'', ''width=320'')])
                           (Some [])]),
                Text ''x'']))
   \<and> setViewport (Element ''html'' (Some [])
         (Some [Element ''head'' (Some [])
                  (Some [Element ''meta''
                           (Some [(''name'', ''viewport''), (''content'', ''width=320'')])
                           (Some [])]),
                Text ''x''])) None
     = Inr (Element ''html'' (Some [])
         (Some [Element ''head'' (Some [])
                  (Some [Element ''meta''
                           (Some [(''name'', ''viewport''), (''content'', ''width=320'')])
                           (Some [])]),
                Text ''x'']))"
  using
    setCharset_setViewport[where root = "Element ''html'' (Some [])
       (Some [Element ''head'' (Some [])
                (Some [Element ''meta''
                         (Some [(''http-equiv'', ''Content-Type''),
                                (''content'', ''text/html; CHARSET=utf-8'')]) (Some [])])])"
      and charset_opt = None and content_opt = None
      and name = "''html''" and attribs = "Some []" and pre = "[]" and post = "[]"
      and ha = "Some []" and hcs = "[]" and b = "Text []" and cs = "[]" and r = "Text []"]
    setCharset_setViewport[where root = "Element ''html'' (Some [])
         (Some [Element ''head'' (Some [])
                  (Some [Element ''meta''
                           (Some [(''name'', ''viewport''), (''content'', ''width=320'')])
                           (Some [])])])"
      and charset_opt = None and content_opt = None
      and name = "''html''" and attribs = "Some []" and pre = "[]" and post = "[]"
      and ha = "Some []" and hcs = "[]" and b = "Text []" and cs = "[]" and r = "Text []"]
    setCharset_setViewport[where root = "Element ''html'' (Some []) (Some [Text ''x''])"
      and charset_opt = "Some ''gb2312''" and charset_opt' = None
      and content_opt = "Some ''width=320''" and content_opt' = None
      and name = "''html''" and attribs = "Some []" and pre = "[Text ''x'']" and post = "[]"
      and ha = "Some []" and hcs = "[Text ''y'']" and b = "Element ''body'' (Some []) (Some [])"
      and cs = "[Text ''x'']"
      and r = "Element ''html'' (Some [])
         (Some [Element ''head'' (Some [])
                  (Some [Element ''meta'' (Some [(''charset'', ''gb2312'')]) (Some [])]),
                Text ''x''])"]
    setCharset_setViewport[where root = "Element ''html'' (Some []) (Some [Text ''x''])"
      and charset_opt = "Some ''gb2312''" and charset_opt' = None
      and content_opt = "Some ''width=320''" and content_opt' = None
      and name = "''html''" and attribs = "Some []" and pre = "[Text ''x'']" and post = "[]"
      and ha = "Some []" and hcs = "[Text ''y'']" and b = "Element ''body'' (Some []) (Some [])"
      and cs = "[Text ''x'']"
      and r = "Element ''html'' (Some [])
         (Some [Element ''head'' (Some [])
                  (Some [Element ''meta''
                           (Some [(''name'', ''viewport''), (''content'', ''width=320'')])
                           (Some [])]),
                Text ''x''])"]
  by (simp add: Let_def get_prop_def toLowerCase_def lower_char_def char_of_def
      bit_iff_odd_drop_bit
      drop_bit_eq_div)

section \<open>The frame of the mutation operations\<close>




















text \<open>
  The relation is not satisfied by a change of the attribs of a kept node: not when a
  child is overwritten with a copy of its sibling, not when a title loses its
  attributes while its children are replaced, and not when two children change places.
\<close>

lemma framed_rejects_changed_attribs:
  "\<not> framed []
       (Element ''div'' (Some [])
          (Some [Element ''p'' (Some [(''class'', ''a'')]) (Some []),
                 Element ''p'' (Some [(''class'', ''b'')]) (Some [])]))
       (Element ''div'' (Some [])
          (Some [Element ''p'' (Some [(''class'', ''a'')]) (Some []),
                 Element ''p'' (Some [(''class'', ''a'')]) (Some [])]))"
  "\<not> framed [Text ''T'']
       (Element ''head'' (Some [])
          (Some [Element ''title'' (Some [(''id'', ''main'')]) (Some [Text ''old''])]))
       (Element ''head'' (Some [])
          (Some [Element ''title'' (Some []) (Some [Text ''T''])]))"
  "\<not> framed []
       (Element ''div'' (Some [])
          (Some [Element ''p'' (Some []) (Some [Text ''a'']),
                 Element ''p'' (Some []) (Some [Text ''b''])]))
       (Element ''div'' (Some [])
          (Some [Element ''p'' (Some []) (Some [Text ''b'']),
                 Element ''p'' (Some []) (Some [Text ''a''])]))"
  by simp_all

section \<open>Outside the canonical trees\<close>

text \<open>
  What the head operations do on a root that the theorems above leave out. A root
  without a children array is returned as it is: \<^verbatim>\<open>ensureHeadNode\<close> builds a head that is
  put nowhere, and the new node goes into that head. A head that is found in the tree
  and has no children array makes \<^verbatim>\<open>headNode.children.push\<close> a \<^verbatim>\<open>TypeError\<close>.
\<close>

lemma root_without_children_array:
  "insertInlineScript (Element name attribs None) scriptText = Inr (Element name attribs None)"
  "insertLink (Element name attribs None) href rel_opt additionalAttribs_opt
   = Inr (Element name attribs None)"
  "name \<noteq> ''title'' \<Longrightarrow>
   setTitle (Element name attribs None) newTitle = Inr (Element name attribs None)"
  "insertInlineScript (Text s) scriptText = Inr (Text s)"
  by (simp_all add: insertInlineScript_def insertLink_def setTitle_def)

lemma head_without_children_array:
  "insertInlineScript (Element name attribs (Some [Element ''head'' ha None])) scriptText
   = Inl TypeError"
  "insertLink (Element name attribs (Some [Element ''head'' ha None])) href rel_opt
     additionalAttribs_opt
   = Inl TypeError"
  "name \<noteq> ''title'' \<Longrightarrow>
   setTitle (Element name attribs (Some [Element ''head'' ha None])) newTitle = Inl TypeError"
  by (simp_all add: insertInlineScript_def insertLink_def setTitle_def)

end
